theory Spec2Isabelle
  imports Main "HOL-Library.Word"
begin

unbundle bit_operations_syntax

section \<open>The authenticated key exchange of otr3 (ake.go)\<close>

text \<open>
  A shallow embedding of \<^verbatim>\<open>src/ake.go\<close> and of \<^verbatim>\<open>sendDHCommit\<close>.
  Go byte slices are lists of 8-bit words, \<^verbatim>\<open>*big.Int\<close> is \<open>int option\<close>
  (\<open>None\<close> is the nil pointer), \<^verbatim>\<open>uint32\<close> is \<open>32 word\<close>. A method with a
  pointer receiver takes the context and returns it updated, together with what the
  Go method returns.
\<close>

subsection \<open>Bytes, errors and results\<close>

type_synonym byte = "8 word"
type_synonym bytes = "byte list"

text \<open>
  The error values that \<^verbatim>\<open>ake.go\<close> returns. \<open>ErrorsNew s\<close> is \<^verbatim>\<open>errors.New(s)\<close>,
  \<open>NewOtrError s\<close> is \<^verbatim>\<open>newOtrError(s)\<close>; the three package-level error variables
  and \<^verbatim>\<open>io.ErrUnexpectedEOF\<close> are values of their own.
\<close>

datatype error =
    ErrorsNew string
  | NewOtrError string
  | ErrShortRandomRead
  | ErrInvalidOTRMessage
  | ErrCorruptEncryptedSignature
  | IoErrUnexpectedEOF

text \<open>
  What a call does: it returns a value with a nil error (\<open>Value\<close>), returns a non-nil
  error (\<open>Failure\<close>; the other results are then the zero values the source returns
  beside it), or stops in a run-time panic (\<open>Panic\<close>: a nil pointer dereference or a
  slice bound out of range).
\<close>

datatype 'a ret = Value 'a | Failure error | Panic

subsection \<open>Wire primitives\<close>

text \<open>
  Modelled from the spec: \<^verbatim>\<open>appendWord\<close>, \<^verbatim>\<open>appendData\<close>, \<^verbatim>\<open>appendMPI\<close>,
  \<^verbatim>\<open>extractWord\<close>, \<^verbatim>\<open>extractData\<close> and \<^verbatim>\<open>extractMPI\<close> are called by
  \<^verbatim>\<open>ake.go\<close> and are absent from src/. Section 4.1 and the glossary give the framing:
  a length prefix (the protocol's 4-byte big-endian word) followed by the big-endian
  bytes; decoding fails when the declared length does not match the available bytes.
\<close>

definition appendWord :: "bytes \<Rightarrow> 32 word \<Rightarrow> bytes" where
  "appendWord l w =
     l @ [ucast (drop_bit 24 w), ucast (drop_bit 16 w), ucast (drop_bit 8 w), ucast w]"

definition appendData :: "bytes \<Rightarrow> bytes \<Rightarrow> bytes" where
  "appendData l d = appendWord l (word_of_nat (length d)) @ d"

fun natToBytes :: "nat \<Rightarrow> bytes" where
  "natToBytes n = (if n = 0 then [] else natToBytes (n div 256) @ [word_of_nat (n mod 256)])"

declare natToBytes.simps [simp del]

definition bytesToInt :: "bytes \<Rightarrow> int" where
  "bytesToInt bs = foldl (\<lambda>acc b. acc * 256 + uint b) 0 bs"

definition appendMPI :: "bytes \<Rightarrow> int \<Rightarrow> bytes" where
  "appendMPI l v = appendData l (natToBytes (nat \<bar>v\<bar>))"

definition extractWord :: "bytes \<Rightarrow> bytes \<times> 32 word \<times> bool" where
  "extractWord d =
     (if length d < 4 then ([], 0, False)
      else (drop 4 d,
            push_bit 24 (ucast (d ! 0)) OR push_bit 16 (ucast (d ! 1))
              OR push_bit 8 (ucast (d ! 2)) OR ucast (d ! 3),
            True))"

definition extractData :: "bytes \<Rightarrow> bytes \<times> bytes \<times> bool" where
  "extractData d =
     (case extractWord d of (newPoint, len, ok) \<Rightarrow>
        if \<not> ok \<or> length newPoint < unat len then ([], [], False)
        else (drop (unat len) newPoint, take (unat len) newPoint, True))"

definition extractMPI :: "bytes \<Rightarrow> bytes \<times> int \<times> bool" where
  "extractMPI d =
     (case extractWord d of (d', mpiLen, ok) \<Rightarrow>
        if \<not> ok \<or> length d' < unat mpiLen then ([], 0, False)
        else (drop (unat mpiLen) d', bytesToInt (take (unat mpiLen) d'), True))"

subsection \<open>crypto/subtle\<close>

text \<open>
  \<^verbatim>\<open>subtle.ConstantTimeCompare\<close> of the Go library: 0 when the lengths differ,
  otherwise the bytes are XORed pairwise and ORed into one accumulator, and the result
  is 1 exactly when the accumulator is 0.
\<close>

definition ConstantTimeByteEq :: "byte \<Rightarrow> byte \<Rightarrow> int" where
  "ConstantTimeByteEq x y = (if x = y then 1 else 0)"

fun xorFold :: "byte \<Rightarrow> bytes \<Rightarrow> bytes \<Rightarrow> byte" where
  "xorFold v (x # xs) (y # ys) = xorFold (v OR (x XOR y)) xs ys"
| "xorFold v _ _ = v"

definition ConstantTimeCompare :: "bytes \<Rightarrow> bytes \<Rightarrow> int" where
  "ConstantTimeCompare x y =
     (if length x \<noteq> length y then 0 else ConstantTimeByteEq (xorFold 0 x y) 0)"

subsection \<open>Parameters: what ake.go calls and src/ does not define\<close>

record akeKeys =
  c :: bytes
  m1 :: bytes
  m2 :: bytes

text \<open>The four message structs; a \<^verbatim>\<open>*big.Int\<close> field is \<open>None\<close> when nil.\<close>

record dhCommit =
  dhCommit_messageHeader :: bytes
  dhCommit_gx :: "int option"
  dhCommit_encryptedGx :: bytes
  dhCommit_hashedGx :: bytes

record dhKey =
  dhKey_messageHeader :: bytes
  dhKey_gy :: "int option"

record revealSig =
  revealSig_messageHeader :: bytes
  revealSig_r :: bytes
  revealSig_encryptedSig :: bytes
  revealSig_macSig :: bytes

record sig =
  sig_messageHeader :: bytes
  sig_encryptedSig :: bytes
  sig_macSig :: bytes

text \<open>
  The functions and constants that \<^verbatim>\<open>ake.go\<close> uses and that are not in src/ are
  parameters of the model, one field each: the header length and header of the
  negotiated version, the DH prime, the library primitives (SHA-256, HMAC-SHA256,
  AES in counter mode with a zero IV), \<^verbatim>\<open>encrypt\<close>, \<^verbatim>\<open>decrypt\<close>,
  \<^verbatim>\<open>calculateAKEKeys\<close>, the long-term keys (types \<open>'pub\<close> and \<open>'priv\<close>, with
  \<^verbatim>\<open>serialize\<close>, \<^verbatim>\<open>parse\<close>, \<^verbatim>\<open>verify\<close> and \<^verbatim>\<open>sign\<close>), the
  \<^verbatim>\<open>serialize\<close> and \<^verbatim>\<open>deserialize\<close> methods of the four messages, and the text
  \<^verbatim>\<open>Error()\<close> of the error values that are not made by \<^verbatim>\<open>errors.New\<close>.

  \<^verbatim>\<open>encrypt\<close> is the first result of the Go function (its caller drops the error);
  \<^verbatim>\<open>decrypt\<close> gives the error or the contents of \<^verbatim>\<open>dst\<close>; \<^verbatim>\<open>parseKey\<close> gives
  the rest of the input, the key that \<^verbatim>\<open>parse\<close> has filled in, and \<^verbatim>\<open>ok\<close>;
  \<^verbatim>\<open>sign\<close> takes the bytes that the random source still holds and gives them back
  without those it has read.
\<close>

record ('pub, 'priv) env =
  headerLen :: nat
  messageHeader :: bytes
  dhPrime :: int
  sha256_Sum256 :: "bytes \<Rightarrow> bytes"
  hmac_sha256 :: "bytes \<Rightarrow> bytes \<Rightarrow> bytes"
  aesCTR :: "bytes \<Rightarrow> bytes \<Rightarrow> bytes"
  encrypt :: "bytes \<Rightarrow> bytes \<Rightarrow> bytes"
  decrypt :: "bytes \<Rightarrow> bytes \<Rightarrow> error + bytes"
  calculateAKEKeys :: "int \<Rightarrow> bytes \<times> akeKeys \<times> akeKeys"
  publicKey :: "'priv \<Rightarrow> 'pub"
  serializeKey :: "'pub \<Rightarrow> bytes"
  parseKey :: "bytes \<Rightarrow> bytes \<times> 'pub \<times> bool"
  verify :: "'pub \<Rightarrow> bytes \<Rightarrow> bytes \<Rightarrow> bytes \<times> bool"
  sign :: "'priv \<Rightarrow> bytes \<Rightarrow> bytes \<Rightarrow> (error + bytes) \<times> bytes"
  dhCommit_serialize :: "dhCommit \<Rightarrow> bytes"
  dhCommit_deserialize :: "bytes \<Rightarrow> error + dhCommit"
  dhKey_serialize :: "dhKey \<Rightarrow> bytes"
  dhKey_deserialize :: "bytes \<Rightarrow> error + dhKey"
  revealSig_serialize :: "revealSig \<Rightarrow> bytes"
  revealSig_deserialize :: "bytes \<Rightarrow> error + revealSig"
  sig_serialize :: "sig \<Rightarrow> bytes"
  sig_deserialize :: "bytes \<Rightarrow> error + sig"
  errorText :: "error \<Rightarrow> string"

text \<open>\<^verbatim>\<open>err.Error()\<close>: the text given to \<^verbatim>\<open>errors.New\<close>, or the parameter.\<close>

fun Error :: "('pub, 'priv) env \<Rightarrow> error \<Rightarrow> string" where
  "Error E (ErrorsNew s) = s"
| "Error E e = errorText E e"

text \<open>
  Modelled from the spec: \<^verbatim>\<open>modExp\<close>, \<^verbatim>\<open>lt\<close>, \<^verbatim>\<open>gt\<close>, \<^verbatim>\<open>eq\<close>, \<^verbatim>\<open>g1\<close>
  and \<^verbatim>\<open>pMinusTwo\<close> are absent from src/. Section 4.1: modular exponentiation and
  the range predicates against the protocol-fixed bounds \<open>g1\<close> (the generator) and
  \<open>p - 2\<close>; section 3: the range is \<open>2 \<le> value \<le> p - 2\<close>, so the generator is 2.
\<close>

definition g1 :: int where
  "g1 = 2"

definition pMinusTwo :: "('pub, 'priv) env \<Rightarrow> int" where
  "pMinusTwo E = dhPrime E - 2"

definition modExp :: "('pub, 'priv) env \<Rightarrow> int \<Rightarrow> int \<Rightarrow> int" where
  "modExp E g x = g ^ nat x mod dhPrime E"

definition lt :: "int \<Rightarrow> int \<Rightarrow> bool" where
  "lt l rr = (l < rr)"

definition gt :: "int \<Rightarrow> int \<Rightarrow> bool" where
  "gt l rr = (l > rr)"

definition eq :: "int \<Rightarrow> int \<Rightarrow> bool" where
  "eq l rr = (l = rr)"

subsection \<open>The AKE context\<close>

text \<open>
  \<^verbatim>\<open>AKE\<close> with its embedded \<^verbatim>\<open>akeContext\<close>: the fields that \<^verbatim>\<open>ake.go\<close> reads
  and writes. \<open>randSrc\<close> is the reader that \<^verbatim>\<open>ake.rand()\<close> returns, as the bytes it
  will still deliver before it is exhausted.
\<close>

record ('pub, 'priv) AKE =
  secretExponent :: "int option"
  ourPublicValue :: "int option"
  theirPublicValue :: "int option"
  r :: bytes
  encryptedGx :: bytes
  hashedGx :: bytes
  sigKey :: akeKeys
  revealKey :: akeKeys
  ssid :: bytes
  ourKeyID :: "32 word"
  theirKeyID :: "32 word"
  ourKey :: "'priv option"
  theirKey :: "'pub option"
  randSrc :: bytes

text \<open>
  \<^verbatim>\<open>io.ReadFull(reader, buf)\<close>: fills \<open>buf\<close> and succeeds when the reader holds
  enough bytes; otherwise it fails, having copied the bytes there were to the front of
  \<open>buf\<close> and emptied the reader. The results are \<open>ok\<close>, the buffer, the reader.
\<close>

definition readFull :: "bytes \<Rightarrow> bytes \<Rightarrow> bool \<times> bytes \<times> bytes" where
  "readFull src buf =
     (if length buf \<le> length src
      then (True, take (length buf) src, drop (length buf) src)
      else (False, src @ drop (length src) buf, []))"

text \<open>
  Modelled from the spec: \<^verbatim>\<open>randMPI\<close> is absent from src/. Section 6: the random
  byte source fills a buffer, and a short read is a hard failure, never padded. The
  result is \<open>Some x\<close> for \<^verbatim>\<open>(x, true)\<close>, with \<open>x\<close> the big-endian value of the
  buffer, and \<open>None\<close> for \<^verbatim>\<open>(nil, false)\<close>.
\<close>

definition randMPI ::
  "('pub, 'priv) AKE \<Rightarrow> bytes \<Rightarrow> int option \<times> ('pub, 'priv) AKE" where
  "randMPI ake buf =
     (case readFull (randSrc ake) buf of
        (ok, buf', src') \<Rightarrow>
          if ok then (Some (bytesToInt buf'), ake\<lparr>randSrc := src'\<rparr>)
          else (None, ake\<lparr>randSrc := src'\<rparr>))"

subsection \<open>ake.go\<close>

definition sumHMAC :: "('pub, 'priv) env \<Rightarrow> bytes \<Rightarrow> bytes \<Rightarrow> bytes" where
  "sumHMAC E key data = hmac_sha256 E key data"

definition sha256Sum :: "('pub, 'priv) env \<Rightarrow> bytes \<Rightarrow> bytes" where
  "sha256Sum E x = sha256_Sum256 E x"

definition calcAKEKeys ::
  "('pub, 'priv) env \<Rightarrow> ('pub, 'priv) AKE \<Rightarrow> int \<Rightarrow> ('pub, 'priv) AKE" where
  "calcAKEKeys E ake s =
     (case calculateAKEKeys E s of
        (ss, rk, sk) \<Rightarrow> ake\<lparr>ssid := ss, revealKey := rk, sigKey := sk\<rparr>)"

definition setSecretExponent ::
  "('pub, 'priv) env \<Rightarrow> ('pub, 'priv) AKE \<Rightarrow> int \<Rightarrow> ('pub, 'priv) AKE" where
  "setSecretExponent E ake val =
     ake\<lparr>secretExponent := Some val, ourPublicValue := Some (modExp E g1 val)\<rparr>"

text \<open>\<open>None\<close> is the panic of \<^verbatim>\<open>big.Int.Exp\<close> on a nil operand.\<close>

definition calcDHSharedSecret ::
  "('pub, 'priv) env \<Rightarrow> ('pub, 'priv) AKE \<Rightarrow> int option" where
  "calcDHSharedSecret E ake =
     (case (theirPublicValue ake, secretExponent ake) of
        (Some t, Some x) \<Rightarrow> Some (modExp E t x)
      | _ \<Rightarrow> None)"

text \<open>\<open>None\<close> is the panic of \<^verbatim>\<open>appendMPI\<close> on a nil \<^verbatim>\<open>*big.Int\<close>.\<close>

definition appendAll ::
  "('pub, 'priv) env \<Rightarrow> int option \<Rightarrow> int option \<Rightarrow> 'pub \<Rightarrow> 32 word \<Rightarrow> bytes option" where
  "appendAll E one two pk keyID =
     (case (one, two) of
        (Some v, Some w) \<Rightarrow>
          Some (appendWord (appendMPI (appendMPI [] v) w @ serializeKey E pk) keyID)
      | _ \<Rightarrow> None)"

definition calcXb ::
  "('pub, 'priv) env \<Rightarrow> ('pub, 'priv) AKE \<Rightarrow> akeKeys \<Rightarrow> bytes
     \<Rightarrow> bytes ret \<times> ('pub, 'priv) AKE" where
  "calcXb E ake key mb =
     (case ourKey ake of
        None \<Rightarrow> (Panic, ake)
      | Some k \<Rightarrow>
          let xb = serializeKey E (publicKey E k);
              xb = appendWord xb (ourKeyID ake)
          in (case sign E k (randSrc ake) mb of
                (res, src') \<Rightarrow>
                  let ake = ake\<lparr>randSrc := src'\<rparr>
                  in (case res of
                        Inl err \<Rightarrow>
                          if err = IoErrUnexpectedEOF then (Failure ErrShortRandomRead, ake)
                          else (Failure err, ake)
                      | Inr sigb \<Rightarrow> (Value (aesCTR E (c key) (xb @ sigb)), ake))))"

definition generateEncryptedSignature ::
  "('pub, 'priv) env \<Rightarrow> ('pub, 'priv) AKE \<Rightarrow> akeKeys \<Rightarrow> bytes ret \<times> ('pub, 'priv) AKE" where
  "generateEncryptedSignature E ake key =
     (case ourKey ake of
        None \<Rightarrow> (Panic, ake)
      | Some k \<Rightarrow>
          (case appendAll E (ourPublicValue ake) (theirPublicValue ake) (publicKey E k)
                  (ourKeyID ake) of
             None \<Rightarrow> (Panic, ake)
           | Some verifyData \<Rightarrow>
               let mb = sumHMAC E (m1 key) verifyData
               in (case calcXb E ake key mb of
                     (Value xb, ake) \<Rightarrow> (Value (appendData [] xb), ake)
                   | (Failure err, ake) \<Rightarrow> (Failure err, ake)
                   | (Panic, ake) \<Rightarrow> (Panic, ake))))"

definition dhCommitMessage ::
  "('pub, 'priv) env \<Rightarrow> ('pub, 'priv) AKE \<Rightarrow> bytes ret \<times> ('pub, 'priv) AKE" where
  "dhCommitMessage E ake0 =
     (let ake = ake0\<lparr>ourKeyID := 0\<rparr>
      in (case randMPI ake (replicate 40 0) of
           (None, ake) \<Rightarrow> (Failure ErrShortRandomRead, ake)
         | (Some x, ake) \<Rightarrow>
             let ake = setSecretExponent E ake x
             in (case readFull (randSrc ake) (r ake) of
                  (ok, buf, src') \<Rightarrow>
                    let ake = ake\<lparr>r := buf, randSrc := src'\<rparr>
                    in if \<not> ok then (Failure ErrShortRandomRead, ake)
                       else (case ourPublicValue ake of
                               None \<Rightarrow> (Panic, ake)
                             | Some gx \<Rightarrow>
                                 let ake = ake\<lparr>encryptedGx := encrypt E (r ake) (appendMPI [] gx)\<rparr>;
                                     dhCommitMsg =
                                       \<lparr>dhCommit_messageHeader = messageHeader E,
                                        dhCommit_gx = ourPublicValue ake,
                                        dhCommit_encryptedGx = encryptedGx ake,
                                        dhCommit_hashedGx = replicate 32 0\<rparr>
                                 in (Value (dhCommit_serialize E dhCommitMsg), ake)))))"

definition serializeDHCommit :: "('pub, 'priv) env \<Rightarrow> ('pub, 'priv) AKE \<Rightarrow> bytes" where
  "serializeDHCommit E ake =
     dhCommit_serialize E
       \<lparr>dhCommit_messageHeader = messageHeader E,
        dhCommit_gx = theirPublicValue ake,
        dhCommit_encryptedGx = encryptedGx ake,
        dhCommit_hashedGx = replicate 32 0\<rparr>"

definition serializeDHKey :: "('pub, 'priv) env \<Rightarrow> ('pub, 'priv) AKE \<Rightarrow> bytes" where
  "serializeDHKey E ake =
     dhKey_serialize E
       \<lparr>dhKey_messageHeader = messageHeader E, dhKey_gy = ourPublicValue ake\<rparr>"

definition dhKeyMessage ::
  "('pub, 'priv) env \<Rightarrow> ('pub, 'priv) AKE \<Rightarrow> bytes ret \<times> ('pub, 'priv) AKE" where
  "dhKeyMessage E ake0 =
     (case randMPI ake0 (replicate 40 0) of
        (None, ake) \<Rightarrow> (Failure ErrShortRandomRead, ake)
      | (Some y, ake) \<Rightarrow>
          let ake = setSecretExponent E ake y
          in (Value (serializeDHKey E ake), ake))"

definition revealSigMessage ::
  "('pub, 'priv) env \<Rightarrow> ('pub, 'priv) AKE \<Rightarrow> bytes ret \<times> ('pub, 'priv) AKE" where
  "revealSigMessage E ake0 =
     (case calcDHSharedSecret E ake0 of
        None \<Rightarrow> (Panic, ake0)
      | Some s \<Rightarrow>
          let ake = calcAKEKeys E ake0 s
          in (case generateEncryptedSignature E ake (revealKey ake) of
               (Failure err, ake) \<Rightarrow> (Failure err, ake)
             | (Panic, ake) \<Rightarrow> (Panic, ake)
             | (Value encryptedSig, ake) \<Rightarrow>
                 let macSig = sumHMAC E (m2 (revealKey ake)) encryptedSig;
                     revealSigMsg =
                       \<lparr>revealSig_messageHeader = messageHeader E,
                        revealSig_r = r ake,
                        revealSig_encryptedSig = encryptedSig,
                        revealSig_macSig = macSig\<rparr>
                 in (Value (revealSig_serialize E revealSigMsg), ake)))"

definition sigMessage ::
  "('pub, 'priv) env \<Rightarrow> ('pub, 'priv) AKE \<Rightarrow> bytes ret \<times> ('pub, 'priv) AKE" where
  "sigMessage E ake0 =
     (case calcDHSharedSecret E ake0 of
        None \<Rightarrow> (Panic, ake0)
      | Some s \<Rightarrow>
          let ake = calcAKEKeys E ake0 s
          in (case generateEncryptedSignature E ake (sigKey ake) of
               (Failure err, ake) \<Rightarrow> (Failure err, ake)
             | (Panic, ake) \<Rightarrow> (Panic, ake)
             | (Value encryptedSig, ake) \<Rightarrow>
                 let macSig = sumHMAC E (m2 (sigKey ake)) encryptedSig;
                     sigMsg =
                       \<lparr>sig_messageHeader = messageHeader E,
                        sig_encryptedSig = encryptedSig,
                        sig_macSig = macSig\<rparr>
                 in (Value (sig_serialize E sigMsg), ake)))"

definition chainErrors ::
  "(bytes \<Rightarrow> error + bytes) \<Rightarrow> (bytes \<Rightarrow> error + 'm) \<Rightarrow> bytes \<Rightarrow> error + 'm" where
  "chainErrors f1 f2 msg = (case f1 msg of Inl e1 \<Rightarrow> Inl e1 | Inr res \<Rightarrow> f2 res)"

definition ensureValidMessage :: "('pub, 'priv) env \<Rightarrow> bytes \<Rightarrow> error + bytes" where
  "ensureValidMessage E msg =
     (if length msg < headerLen E then Inl ErrInvalidOTRMessage
      else Inr (drop (headerLen E) msg))"

definition processDHCommit ::
  "('pub, 'priv) env \<Rightarrow> ('pub, 'priv) AKE \<Rightarrow> bytes \<Rightarrow> unit ret \<times> ('pub, 'priv) AKE" where
  "processDHCommit E ake msg =
     (case chainErrors (ensureValidMessage E) (dhCommit_deserialize E) msg of
        Inl err \<Rightarrow> (Failure err, ake)
      | Inr dhCommitMsg \<Rightarrow>
          (Value (),
           ake\<lparr>encryptedGx := dhCommit_encryptedGx dhCommitMsg,
               hashedGx := dhCommit_hashedGx dhCommitMsg\<rparr>))"

text \<open>
  The \<open>bool\<close> is \<^verbatim>\<open>isSame\<close>; with an error the source returns \<^verbatim>\<open>false\<close> beside
  it. \<^verbatim>\<open>eq\<close> on a nil \<^verbatim>\<open>gy\<close> is a nil dereference.
\<close>

definition processDHKey ::
  "('pub, 'priv) env \<Rightarrow> ('pub, 'priv) AKE \<Rightarrow> bytes \<Rightarrow> bool ret \<times> ('pub, 'priv) AKE" where
  "processDHKey E ake msg =
     (case chainErrors (ensureValidMessage E) (dhKey_deserialize E) msg of
        Inl err \<Rightarrow> (Failure err, ake)
      | Inr dhKeyMsg \<Rightarrow>
          (case theirPublicValue ake of
             Some v \<Rightarrow>
               (case dhKey_gy dhKeyMsg of
                  None \<Rightarrow> (Panic, ake)
                | Some gy \<Rightarrow> (Value (eq v gy), ake))
           | None \<Rightarrow> (Value False, ake\<lparr>theirPublicValue := dhKey_gy dhKeyMsg\<rparr>)))"

definition checkDecryptedGx :: "('pub, 'priv) env \<Rightarrow> bytes \<Rightarrow> bytes \<Rightarrow> error option" where
  "checkDecryptedGx E decryptedGx hashedGx' =
     (let digest = sha256Sum E decryptedGx
      in if ConstantTimeCompare digest hashedGx' = 0
         then Some (ErrorsNew ''otr: bad commit MAC in reveal signature message'')
         else None)"

text \<open>The \<^verbatim>\<open>gx\<close> that the source returns beside an error is dropped: no caller reads it.\<close>

definition extractGx :: "('pub, 'priv) env \<Rightarrow> bytes \<Rightarrow> error + int" where
  "extractGx E decryptedGx =
     (case extractMPI decryptedGx of
        (newData, gx, ok) \<Rightarrow>
          if \<not> ok \<or> length newData > 0
          then Inl (ErrorsNew ''otr: gx corrupt after decryption'')
          else if lt gx g1 \<or> gt gx (pMinusTwo E)
          then Inl (ErrorsNew ''otr: DH value out of range'')
          else Inr gx)"

definition processEncryptedSig ::
  "('pub, 'priv) env \<Rightarrow> ('pub, 'priv) AKE \<Rightarrow> bytes \<Rightarrow> bytes \<Rightarrow> akeKeys
     \<Rightarrow> unit ret \<times> ('pub, 'priv) AKE" where
  "processEncryptedSig E ake encryptedSig theirMAC keys =
     (let tomac = appendData [] encryptedSig;
          mac = sumHMAC E (m2 keys) tomac
      in if length mac < 20 then (Panic, ake)
         else
           let myMAC = take 20 mac
           in if length myMAC \<noteq> length theirMAC \<or> ConstantTimeCompare myMAC theirMAC = 0
              then (Failure (ErrorsNew ''bad signature MAC in encrypted signature''), ake)
              else
                (case decrypt E (c keys) encryptedSig of
                   Inl err \<Rightarrow> (Failure err, ake)
                 | Inr decryptedSig \<Rightarrow>
                     (case parseKey E decryptedSig of
                        (nextPoint, pk, ok1) \<Rightarrow>
                          let ake = ake\<lparr>theirKey := Some pk\<rparr>
                          in (case extractWord nextPoint of
                               (_, keyID, ok2) \<Rightarrow>
                                 if \<not> ok1 \<or> \<not> ok2 \<or> length nextPoint < 4
                                 then (Failure ErrCorruptEncryptedSignature, ake)
                                 else
                                   let sig = drop 4 nextPoint
                                   in (case appendAll E (theirPublicValue ake)
                                             (ourPublicValue ake) pk keyID of
                                        None \<Rightarrow> (Panic, ake)
                                      | Some verifyData \<Rightarrow>
                                          let mb = sumHMAC E (m1 keys) verifyData
                                          in (case verify E pk mb sig of
                                               (rest, ok) \<Rightarrow>
                                                 if \<not> ok
                                                 then (Failure (ErrorsNew
                                                         ''bad signature in encrypted signature''), ake)
                                                 else if length rest > 0
                                                 then (Failure ErrCorruptEncryptedSignature, ake)
                                                 else (Value (), ake\<lparr>theirKeyID := keyID\<rparr>)))))))"

definition processRevealSig ::
  "('pub, 'priv) env \<Rightarrow> ('pub, 'priv) AKE \<Rightarrow> bytes \<Rightarrow> unit ret \<times> ('pub, 'priv) AKE" where
  "processRevealSig E ake0 msg =
     (case chainErrors (ensureValidMessage E) (revealSig_deserialize E) msg of
        Inl err \<Rightarrow> (Failure err, ake0)
      | Inr revealSigMsg \<Rightarrow>
          let rr = revealSig_r revealSigMsg;
              theirMAC = revealSig_macSig revealSigMsg;
              encryptedSig = revealSig_encryptedSig revealSigMsg
          in (case decrypt E rr (encryptedGx ake0) of
               Inl err \<Rightarrow> (Failure err, ake0)
             | Inr decryptedGx \<Rightarrow>
                 (case checkDecryptedGx E decryptedGx (hashedGx ake0) of
                    Some err \<Rightarrow> (Failure err, ake0)
                  | None \<Rightarrow>
                      (case extractGx E decryptedGx of
                         Inl err \<Rightarrow> (Failure err, ake0)
                       | Inr tempgx \<Rightarrow>
                           let ake = ake0\<lparr>theirPublicValue := Some tempgx\<rparr>
                           in (case calcDHSharedSecret E ake of
                                None \<Rightarrow> (Panic, ake)
                              | Some s \<Rightarrow>
                                  let ake = calcAKEKeys E ake s
                                  in (case processEncryptedSig E ake encryptedSig theirMAC
                                            (revealKey ake) of
                                       (Failure err, ake) \<Rightarrow>
                                         (Failure (NewOtrError
                                            (''in reveal signature message: '' @ Error E err)), ake)
                                     | (Panic, ake) \<Rightarrow> (Panic, ake)
                                     | (Value u, ake) \<Rightarrow> (Value (), ake)))))))"

definition processSig ::
  "('pub, 'priv) env \<Rightarrow> ('pub, 'priv) AKE \<Rightarrow> bytes \<Rightarrow> unit ret \<times> ('pub, 'priv) AKE" where
  "processSig E ake0 msg =
     (case chainErrors (ensureValidMessage E) (sig_deserialize E) msg of
        Inl err \<Rightarrow> (Failure err, ake0)
      | Inr sigMsg \<Rightarrow>
          let theirMAC = sig_macSig sigMsg;
              encryptedSig = sig_encryptedSig sigMsg
          in (case processEncryptedSig E ake0 encryptedSig theirMAC (sigKey ake0) of
               (Failure err, ake) \<Rightarrow>
                 (Failure (ErrorsNew (''otr: in signature message: '' @ Error E err)), ake)
             | (Panic, ake) \<Rightarrow> (Panic, ake)
             | (Value u, ake) \<Rightarrow> (Value (), ake)))"


subsection \<open>The wire format of the messages\<close>

text \<open>
  Modelled from the spec: the \<^verbatim>\<open>serialize\<close> and \<^verbatim>\<open>deserialize\<close> methods of
  \<^verbatim>\<open>revealSig\<close> and \<^verbatim>\<open>sig\<close> are absent from src/. Section 4.4: after the header,
  RevealSignature carries \<open>r\<close>, \<open>encryptedSig\<close>, \<open>macSig\<close> and Signature carries
  \<open>encryptedSig\<close>, \<open>macSig\<close>; \<open>macSig\<close> is truncated to 20 bytes; \<open>r\<close> is 16 bytes;
  a body whose lengths do not match, or with trailing bytes, is rejected. The sender's
  \<open>encryptedSig\<close> field holds the framed bytes (\<^verbatim>\<open>generateEncryptedSignature\<close>
  returns \<^verbatim>\<open>appendData(nil, xb)\<close>), the receiver's the payload
  (\<^verbatim>\<open>processEncryptedSig\<close> frames it again before the MAC).
\<close>

definition revealSig_serialize_spec :: "revealSig \<Rightarrow> bytes" where
  "revealSig_serialize_spec m =
     appendData (revealSig_messageHeader m) (revealSig_r m)
       @ revealSig_encryptedSig m @ take 20 (revealSig_macSig m)"

definition revealSig_deserialize_spec :: "bytes \<Rightarrow> error + revealSig" where
  "revealSig_deserialize_spec body =
     (case extractData body of
        (in1, rr, ok1) \<Rightarrow>
          (case extractData in1 of
             (macSig, encryptedSig, ok2) \<Rightarrow>
               if \<not> ok1 \<or> \<not> ok2 \<or> length rr \<noteq> 16 \<or> length macSig \<noteq> 20
               then Inl (ErrorsNew ''otr: corrupt reveal signature message'')
               else Inr \<lparr>revealSig_messageHeader = [],
                         revealSig_r = rr,
                         revealSig_encryptedSig = encryptedSig,
                         revealSig_macSig = macSig\<rparr>))"

definition sig_serialize_spec :: "sig \<Rightarrow> bytes" where
  "sig_serialize_spec m = sig_messageHeader m @ sig_encryptedSig m @ take 20 (sig_macSig m)"

definition sig_deserialize_spec :: "bytes \<Rightarrow> error + sig" where
  "sig_deserialize_spec body =
     (case extractData body of
        (macSig, encryptedSig, ok1) \<Rightarrow>
          if \<not> ok1 \<or> length macSig \<noteq> 20
          then Inl (ErrorsNew ''otr: corrupt signature message'')
          else Inr \<lparr>sig_messageHeader = [],
                    sig_encryptedSig = encryptedSig,
                    sig_macSig = macSig\<rparr>)"

text \<open>
  Modelled from the spec: \<^verbatim>\<open>dhKey.deserialize\<close> is absent from src/. Section 4.4:
  the Key message carries \<open>gy\<close>; section 4.1: decoding fails when the declared length
  does not match; section 4.4: trailing bytes are rejected; section 3: a DH public
  value outside \<open>2 \<le> value \<le> p - 2\<close> is rejected unconditionally.
\<close>

definition dhKey_deserialize_spec :: "int \<Rightarrow> bytes \<Rightarrow> error + dhKey" where
  "dhKey_deserialize_spec prime body =
     (case extractMPI body of
        (newData, gy, ok) \<Rightarrow>
          if \<not> ok \<or> length newData > 0
          then Inl (ErrorsNew ''otr: corrupt DH key message'')
          else if lt gy g1 \<or> gt gy (prime - 2)
          then Inl (ErrorsNew ''otr: DH value out of range'')
          else Inr \<lparr>dhKey_messageHeader = [], dhKey_gy = Some gy\<rparr>)"

definition specWire :: "('pub, 'priv) env \<Rightarrow> bool" where
  "specWire E \<longleftrightarrow>
     revealSig_serialize E = revealSig_serialize_spec \<and>
     revealSig_deserialize E = revealSig_deserialize_spec \<and>
     sig_serialize E = sig_serialize_spec \<and>
     sig_deserialize E = sig_deserialize_spec \<and>
     length (messageHeader E) = headerLen E"

subsection \<open>Reachable contexts\<close>

text \<open>
  A context starts with \<open>secretExponent\<close> and \<open>ourPublicValue\<close> nil (the zero value
  of the struct; the keys and the random source are set by the caller) and changes by
  the methods of \<^verbatim>\<open>ake.go\<close> only, whatever they return.
\<close>

inductive reachable :: "('pub, 'priv) env \<Rightarrow> ('pub, 'priv) AKE \<Rightarrow> bool"
  for E :: "('pub, 'priv) env" where
  r_init: "secretExponent a = None \<Longrightarrow> ourPublicValue a = None \<Longrightarrow> reachable E a"
| r_calcAKEKeys: "reachable E a \<Longrightarrow> reachable E (calcAKEKeys E a s)"
| r_setSecretExponent: "reachable E a \<Longrightarrow> reachable E (setSecretExponent E a val)"
| r_calcXb: "reachable E a \<Longrightarrow> calcXb E a k mb = (res, a') \<Longrightarrow> reachable E a'"
| r_generateEncryptedSignature:
    "reachable E a \<Longrightarrow> generateEncryptedSignature E a k = (res, a') \<Longrightarrow> reachable E a'"
| r_dhCommitMessage: "reachable E a \<Longrightarrow> dhCommitMessage E a = (res, a') \<Longrightarrow> reachable E a'"
| r_dhKeyMessage: "reachable E a \<Longrightarrow> dhKeyMessage E a = (res, a') \<Longrightarrow> reachable E a'"
| r_revealSigMessage: "reachable E a \<Longrightarrow> revealSigMessage E a = (res, a') \<Longrightarrow> reachable E a'"
| r_sigMessage: "reachable E a \<Longrightarrow> sigMessage E a = (res, a') \<Longrightarrow> reachable E a'"
| r_processDHCommit:
    "reachable E a \<Longrightarrow> processDHCommit E a msg = (ures, a') \<Longrightarrow> reachable E a'"
| r_processDHKey:
    "reachable E a \<Longrightarrow> processDHKey E a msg = (bres, a') \<Longrightarrow> reachable E a'"
| r_processRevealSig:
    "reachable E a \<Longrightarrow> processRevealSig E a msg = (ures, a') \<Longrightarrow> reachable E a'"
| r_processSig:
    "reachable E a \<Longrightarrow> processSig E a msg = (ures, a') \<Longrightarrow> reachable E a'"
| r_processEncryptedSig:
    "reachable E a \<Longrightarrow> processEncryptedSig E a es mac k = (ures, a') \<Longrightarrow> reachable E a'"

definition akeInv :: "('pub, 'priv) env \<Rightarrow> ('pub, 'priv) AKE \<Rightarrow> bool" where
  "akeInv E a \<longleftrightarrow>
     (case (secretExponent a, ourPublicValue a) of
        (None, None) \<Rightarrow> True
      | (Some x, Some y) \<Rightarrow> y = g1 ^ nat x mod dhPrime E
      | _ \<Rightarrow> False)"

subsection \<open>sendDHCommit\<close>

text \<open>
  \<^verbatim>\<open>sendDHCommit\<close> is a method of \<^verbatim>\<open>Conversation\<close>. Of the conversation it
  touches \<^verbatim>\<open>c.ake.state\<close> and \<^verbatim>\<open>c.keys\<close>; the declarations of the structs are
  absent from src/, so the fields that the method does not name are one component each
  (\<open>akeFields\<close>, \<open>otherKeyFields\<close>, \<open>convFields\<close>), and the zero value of the key
  fields is a parameter. The states are those of section 4.5.
\<close>

datatype authState =
    authStateNone
  | authStateAwaitingDHKey
  | authStateAwaitingRevealSig
  | authStateAwaitingSig
  | authStateAuthenticated

record 'k keyManagementContext =
  oldMACKeys :: "bytes list"
  otherKeyFields :: 'k

record 'a akeState =
  state :: authState
  akeFields :: 'a

record ('a, 'k, 'x) Conversation =
  ake :: "'a akeState"
  keys :: "'k keyManagementContext"
  convFields :: 'x

definition msgTypeDHCommit :: byte where
  "msgTypeDHCommit = 2"

text \<open>
  \<^verbatim>\<open>c.dhCommitMessage()\<close> and \<^verbatim>\<open>c.wrapMessageHeader(t, msg)\<close> are methods of the
  conversation that are absent from src/: parameters, which may change any field.
\<close>

definition sendDHCommit ::
  "(('a, 'k, 'x) Conversation \<Rightarrow> bytes ret \<times> ('a, 'k, 'x) Conversation)
   \<Rightarrow> (byte \<Rightarrow> bytes \<Rightarrow> ('a, 'k, 'x) Conversation \<Rightarrow> bytes ret \<times> ('a, 'k, 'x) Conversation)
   \<Rightarrow> 'k \<Rightarrow> ('a, 'k, 'x) Conversation \<Rightarrow> bytes ret \<times> ('a, 'k, 'x) Conversation" where
  "sendDHCommit c_dhCommitMessage c_wrapMessageHeader zeroKeyFields conv0 =
     (case c_dhCommitMessage conv0 of
        (Failure err, conv) \<Rightarrow> (Failure err, conv)
      | (Panic, conv) \<Rightarrow> (Panic, conv)
      | (Value toSend, conv) \<Rightarrow>
          (case c_wrapMessageHeader msgTypeDHCommit toSend conv of
             (Failure err, conv) \<Rightarrow> (Failure err, conv)
           | (Panic, conv) \<Rightarrow> (Panic, conv)
           | (Value toSend, conv) \<Rightarrow>
               (Value toSend,
                conv\<lparr>ake := (ake conv)\<lparr>state := authStateAwaitingDHKey\<rparr>,
                     keys := \<lparr>oldMACKeys = oldMACKeys (keys conv),
                              otherKeyFields = zeroKeyFields\<rparr>\<rparr>)))"

subsection \<open>A small instance\<close>

text \<open>
  An instance of the parameters on which the model runs: the prime is 23, the digest
  and the MAC are 32 zero bytes, the ciphers are the identity, a long-term key is
  \<open>()\<close>, a signature is the byte 1, and the messages have the wire format above.
\<close>

definition toyKeys :: akeKeys where
  "toyKeys = \<lparr>c = replicate 16 0, m1 = replicate 32 0, m2 = replicate 32 0\<rparr>"

definition toyEnv :: "(unit, unit) env" where
  "toyEnv =
     \<lparr>headerLen = 3,
      messageHeader = [0, 2, 0],
      dhPrime = 23,
      sha256_Sum256 = (\<lambda>x. replicate 32 0),
      hmac_sha256 = (\<lambda>k d. replicate 32 0),
      aesCTR = (\<lambda>k d. d),
      encrypt = (\<lambda>k d. d),
      decrypt = (\<lambda>k d. Inr d),
      calculateAKEKeys = (\<lambda>s. (replicate 8 0, toyKeys, toyKeys)),
      publicKey = (\<lambda>k. ()),
      serializeKey = (\<lambda>k. []),
      parseKey = (\<lambda>d. (d, (), True)),
      verify = (\<lambda>k mb sg. case sg of [] \<Rightarrow> ([], False) | x # rest \<Rightarrow> (rest, x = 1)),
      sign = (\<lambda>k src mb. (Inr [1], src)),
      dhCommit_serialize =
        (\<lambda>m. appendData (appendData (dhCommit_messageHeader m) (dhCommit_encryptedGx m))
                (dhCommit_hashedGx m)),
      dhCommit_deserialize =
        (\<lambda>d. case extractData d of
                (rest, e, ok) \<Rightarrow>
                  if ok
                  then Inr \<lparr>dhCommit_messageHeader = [], dhCommit_gx = None,
                            dhCommit_encryptedGx = e, dhCommit_hashedGx = rest\<rparr>
                  else Inl (ErrorsNew ''otr: corrupt DH commit message'')),
      dhKey_serialize =
        (\<lambda>m. case dhKey_gy m of
                None \<Rightarrow> dhKey_messageHeader m
              | Some g \<Rightarrow> appendMPI (dhKey_messageHeader m) g),
      dhKey_deserialize = dhKey_deserialize_spec 23,
      revealSig_serialize = revealSig_serialize_spec,
      revealSig_deserialize = revealSig_deserialize_spec,
      sig_serialize = sig_serialize_spec,
      sig_deserialize = sig_deserialize_spec,
      errorText = (\<lambda>e. ''otr: error'')\<rparr>"

definition toyAKE :: "(unit, unit) AKE" where
  "toyAKE =
     \<lparr>secretExponent = None,
      ourPublicValue = None,
      theirPublicValue = None,
      r = replicate 16 0,
      encryptedGx = [],
      hashedGx = replicate 32 0,
      sigKey = toyKeys,
      revealKey = toyKeys,
      ssid = replicate 8 0,
      ourKeyID = 0,
      theirKeyID = 0,
      ourKey = Some (),
      theirKey = None,
      randSrc = []\<rparr>"

text \<open>
  The responder after the Commit and Key messages: exponent 3, public value
  \<open>2 ^ 3 mod 23 = 8\<close>, and the stored commitment to \<open>gx = 5\<close>.
\<close>

definition wResponder :: "(unit, unit) AKE" where
  "wResponder =
     toyAKE\<lparr>secretExponent := Some 3, ourPublicValue := Some 8,
       encryptedGx := [0, 0, 0, 1, 5]\<rparr>"

text \<open>
  A RevealSignature message of the instance: the header, \<open>r\<close>, the payload (key id 0
  and the signature byte 1) and 20 bytes of MAC.
\<close>

definition wRevealSigMsg :: bytes where
  "wRevealSigMsg =
     [0, 2, 17] @ appendData [] (replicate 16 0) @ appendData [] [0, 0, 0, 0, 1]
       @ replicate 20 0"

text \<open>A Key message of the instance: the header and \<open>gy = 5\<close>.\<close>

definition wKeyMsg :: bytes where
  "wKeyMsg = [0, 2, 10] @ appendMPI [] 5"

text \<open>
  Two Signature messages of the instance: one with a MAC that does not match, one with
  a matching MAC and a signature (the byte 2) that does not verify.
\<close>

definition wSigMsgBadMAC :: bytes where
  "wSigMsgBadMAC = [0, 2, 18] @ appendData [] [0, 0, 0, 0, 1] @ replicate 20 1"

definition wSigMsgBadSig :: bytes where
  "wSigMsgBadSig = [0, 2, 18] @ appendData [] [0, 0, 0, 0, 2] @ replicate 20 0"

text \<open>The initiator after the Key message: exponent 3 and the peer's \<open>gy = 5\<close>.\<close>

definition wInitiator :: "(unit, unit) AKE" where
  "wInitiator =
     toyAKE\<lparr>secretExponent := Some 3, ourPublicValue := Some 8, theirPublicValue := Some 5\<rparr>"

text \<open>
  A conversation on which \<open>sendDHCommit\<close> runs: one old MAC key, the other key fields
  7 (their zero value is 0), and helpers that return a message and change nothing.
\<close>

definition wConversation :: "(unit, nat, unit) Conversation" where
  "wConversation =
     \<lparr>ake = \<lparr>state = authStateNone, akeFields = ()\<rparr>,
      keys = \<lparr>oldMACKeys = [[9, 9]], otherKeyFields = 7\<rparr>,
      convFields = ()\<rparr>"

definition w_dhCommitMessage ::
  "(unit, nat, unit) Conversation \<Rightarrow> bytes ret \<times> (unit, nat, unit) Conversation" where
  "w_dhCommitMessage conv = (Value [1, 2, 3], conv)"

definition w_wrapMessageHeader ::
  "byte \<Rightarrow> bytes \<Rightarrow> (unit, nat, unit) Conversation
     \<Rightarrow> bytes ret \<times> (unit, nat, unit) Conversation" where
  "w_wrapMessageHeader t msg conv = (Value ([0, 2, t] @ msg), conv)"

text \<open>
  The RevealSignature message that the initiator of the instance sends, and the
  Signature message that the responder sends.
\<close>

definition wRevealSigWire :: bytes where
  "wRevealSigWire =
     [0, 2, 0, 0, 0, 0, 16] @ replicate 16 0 @ [0, 0, 0, 5, 0, 0, 0, 0, 1] @ replicate 20 0"

definition wSigWire :: bytes where
  "wSigWire = [0, 2, 0, 0, 0, 0, 5, 0, 0, 0, 0, 1] @ replicate 20 0"

section \<open>Properties\<close>

subsection \<open>crypto/subtle\<close>

text \<open>
  \<open>ConstantTimeCompare\<close> is 1 exactly on equal byte strings. The model gives the
  result of the comparison; the time that the comparison takes is not a value of the
  model.
\<close>

lemma xor_zero_eq: "(x::'a::len word) XOR y = 0 \<longleftrightarrow> x = y"
proof
  assume "x XOR y = 0"
  then have "x XOR (x XOR y) = x" by simp
  then show "x = y" by (simp add: xor.assoc [symmetric])
qed simp

lemma xorFold_zero:
  "length xs = length ys \<Longrightarrow> xorFold v xs ys = 0 \<longleftrightarrow> v = 0 \<and> xs = ys"
proof (induction v xs ys rule: xorFold.induct)
  case (1 v x xs y ys)
  then show ?case by (auto simp: or_eq_0_iff xor_zero_eq)
qed auto

lemma ConstantTimeCompare_eq: "ConstantTimeCompare x y = (if x = y then 1 else 0)"
  by (auto simp: ConstantTimeCompare_def ConstantTimeByteEq_def xorFold_zero)

subsection \<open>What processEncryptedSig changes\<close>

lemma processEncryptedSig_state:
  "processEncryptedSig E a es mac k = (res, a') \<Longrightarrow>
     a' = a \<or> (\<exists>pk. a' = a\<lparr>theirKey := Some pk\<rparr>) \<or>
     (\<exists>pk kid. a' = a\<lparr>theirKey := Some pk, theirKeyID := kid\<rparr>)"
  by (auto simp: processEncryptedSig_def Let_def
      split: if_splits sum.splits prod.splits option.splits)

subsection \<open>C1: the commitment is checked before the revealed value is used\<close>

text \<open>
  C1. When the message parses and \<open>encryptedGx\<close> decrypts under the revealed \<open>r\<close> to
  bytes whose SHA-256 digest is not the stored \<open>hashedGx\<close>, \<open>processRevealSig\<close>
  returns the commitment error and leaves the whole context as it was; and whenever
  \<open>processRevealSig\<close> changes the context at all (\<open>theirPublicValue\<close>, the derived
  keys, the ssid), the digest of the decrypted bytes was equal to \<open>hashedGx\<close>.
\<close>

theorem processRevealSig_checks_commitment:
  "(headerLen E \<le> length msg \<and>
    revealSig_deserialize E (drop (headerLen E) msg) = Inr m \<and>
    decrypt E (revealSig_r m) (encryptedGx a) = Inr d \<and>
    sha256Sum E d \<noteq> hashedGx a \<longrightarrow>
      processRevealSig E a msg =
        (Failure (ErrorsNew ''otr: bad commit MAC in reveal signature message''), a)) \<and>
   (processRevealSig E a msg = (res, a') \<and> a' \<noteq> a \<longrightarrow>
      (\<exists>m' d'. headerLen E \<le> length msg \<and>
         revealSig_deserialize E (drop (headerLen E) msg) = Inr m' \<and>
         decrypt E (revealSig_r m') (encryptedGx a) = Inr d' \<and>
         sha256Sum E d' = hashedGx a))"
proof (intro conjI impI)
  assume "headerLen E \<le> length msg \<and>
    revealSig_deserialize E (drop (headerLen E) msg) = Inr m \<and>
    decrypt E (revealSig_r m) (encryptedGx a) = Inr d \<and>
    sha256Sum E d \<noteq> hashedGx a"
  then show "processRevealSig E a msg =
        (Failure (ErrorsNew ''otr: bad commit MAC in reveal signature message''), a)"
    by (simp add: processRevealSig_def chainErrors_def ensureValidMessage_def
        checkDecryptedGx_def ConstantTimeCompare_eq)
next
  assume "processRevealSig E a msg = (res, a') \<and> a' \<noteq> a"
  then show "\<exists>m' d'. headerLen E \<le> length msg \<and>
         revealSig_deserialize E (drop (headerLen E) msg) = Inr m' \<and>
         decrypt E (revealSig_r m') (encryptedGx a) = Inr d' \<and>
         sha256Sum E d' = hashedGx a"
    by (auto simp: processRevealSig_def chainErrors_def ensureValidMessage_def
        checkDecryptedGx_def ConstantTimeCompare_eq Let_def
        split: if_splits sum.splits option.splits prod.splits ret.splits)
qed

theorem processRevealSig_checks_commitment_witness:
  "processRevealSig toyEnv (wResponder\<lparr>hashedGx := replicate 32 1\<rparr>) wRevealSigMsg =
     (Failure (ErrorsNew ''otr: bad commit MAC in reveal signature message''),
      wResponder\<lparr>hashedGx := replicate 32 1\<rparr>) \<and>
   (\<exists>m' d'. revealSig_deserialize toyEnv (drop (headerLen toyEnv) wRevealSigMsg) = Inr m' \<and>
      decrypt toyEnv (revealSig_r m') (encryptedGx wResponder) = Inr d' \<and>
      sha256Sum toyEnv d' = hashedGx wResponder)"
proof
  have d: "revealSig_deserialize toyEnv (drop (headerLen toyEnv) wRevealSigMsg) =
      Inr \<lparr>revealSig_messageHeader = [], revealSig_r = replicate 16 0,
           revealSig_encryptedSig = [0, 0, 0, 0, 1], revealSig_macSig = replicate 20 0\<rparr>"
    by code_simp
  have h: "headerLen toyEnv \<le> length wRevealSigMsg \<and>
    revealSig_deserialize toyEnv (drop (headerLen toyEnv) wRevealSigMsg) =
      Inr \<lparr>revealSig_messageHeader = [], revealSig_r = replicate 16 0,
           revealSig_encryptedSig = [0, 0, 0, 0, 1], revealSig_macSig = replicate 20 0\<rparr> \<and>
    decrypt toyEnv (revealSig_r \<lparr>revealSig_messageHeader = [], revealSig_r = replicate 16 0,
           revealSig_encryptedSig = [0, 0, 0, 0, 1], revealSig_macSig = replicate 20 0\<rparr>)
      (encryptedGx (wResponder\<lparr>hashedGx := replicate 32 1\<rparr>)) = Inr [0, 0, 0, 1, 5] \<and>
    sha256Sum toyEnv [0, 0, 0, 1, 5] \<noteq> hashedGx (wResponder\<lparr>hashedGx := replicate 32 1\<rparr>)"
    unfolding d by (simp add: toyEnv_def wRevealSigMsg_def wResponder_def sha256Sum_def)
  from processRevealSig_checks_commitment [THEN conjunct1, THEN mp, OF h]
  show "processRevealSig toyEnv (wResponder\<lparr>hashedGx := replicate 32 1\<rparr>) wRevealSigMsg =
     (Failure (ErrorsNew ''otr: bad commit MAC in reveal signature message''),
      wResponder\<lparr>hashedGx := replicate 32 1\<rparr>)" .
next
  have run: "processRevealSig toyEnv wResponder wRevealSigMsg =
      (Value (), wResponder\<lparr>theirPublicValue := Some 5, theirKey := Some ()\<rparr>)"
    by code_simp
  have ne: "wResponder\<lparr>theirPublicValue := Some 5, theirKey := Some ()\<rparr> \<noteq> wResponder"
    by (simp add: wResponder_def toyAKE_def)
  from processRevealSig_checks_commitment [THEN conjunct2, THEN mp, OF conjI [OF run ne]]
  show "\<exists>m' d'. revealSig_deserialize toyEnv (drop (headerLen toyEnv) wRevealSigMsg) = Inr m' \<and>
      decrypt toyEnv (revealSig_r m') (encryptedGx wResponder) = Inr d' \<and>
      sha256Sum toyEnv d' = hashedGx wResponder"
    by blast
qed

subsection \<open>C2: DH public values outside the range are rejected\<close>

text \<open>
  C2 as stated fails on the revealed path when the commitment does not match: the
  revealed bytes decode to the value 1, which is outside \<open>[2, p - 2]\<close>, and
  \<open>processRevealSig\<close> returns the commitment error, not the out-of-range error.
\<close>

theorem dh_value_out_of_range_error_counterexample:
  "revealSig_deserialize toyEnv (drop (headerLen toyEnv) wRevealSigMsg) =
     Inr \<lparr>revealSig_messageHeader = [], revealSig_r = replicate 16 0,
          revealSig_encryptedSig = [0, 0, 0, 0, 1], revealSig_macSig = replicate 20 0\<rparr> \<and>
   decrypt toyEnv (replicate 16 0) [0, 0, 0, 1, 1] = Inr [0, 0, 0, 1, 1] \<and>
   extractMPI [0, 0, 0, 1, 1] = ([], 1, True) \<and>
   (1 :: int) < 2 \<and>
   sha256Sum toyEnv [0, 0, 0, 1, 1] \<noteq> replicate 32 1 \<and>
   processRevealSig toyEnv
       (wResponder\<lparr>encryptedGx := [0, 0, 0, 1, 1], hashedGx := replicate 32 1\<rparr>)
       wRevealSigMsg =
     (Failure (ErrorsNew ''otr: bad commit MAC in reveal signature message''),
      wResponder\<lparr>encryptedGx := [0, 0, 0, 1, 1], hashedGx := replicate 32 1\<rparr>) \<and>
   fst (processRevealSig toyEnv
          (wResponder\<lparr>encryptedGx := [0, 0, 0, 1, 1], hashedGx := replicate 32 1\<rparr>)
          wRevealSigMsg) \<noteq>
     Failure (ErrorsNew ''otr: DH value out of range'')"
  by code_simp

text \<open>
  C2, amended. A revealed value that decodes to \<open>gx\<close> with \<open>gx < 2\<close> or
  \<open>gx > p - 2\<close> is refused by \<open>extractGx\<close> with the out-of-range error.
  \<open>processRevealSig\<close> then fails and leaves the context unchanged whatever the
  commitment, the MAC and the signature are, and the error is the out-of-range error
  whenever the commitment matches (the commitment is compared first). With the
  \<open>deserialize\<close> of the Key message as the spec gives it, \<open>processDHKey\<close> refuses
  such a \<open>gy\<close> with the out-of-range error. Whenever either function changes
  \<open>theirPublicValue\<close>, the new value is in \<open>[2, p - 2]\<close>. The values 1 and
  \<open>p - 1\<close> are instances.
\<close>

theorem dh_value_out_of_range_rejected:
  "(extractMPI dg = ([], gx, True) \<and> (gx < 2 \<or> gx > dhPrime E - 2) \<longrightarrow>
      extractGx E dg = Inl (ErrorsNew ''otr: DH value out of range'')) \<and>
   (extractMPI dg = ([], gx, True) \<and> (gx < 2 \<or> gx > dhPrime E - 2) \<and>
    headerLen E \<le> length msg \<and>
    revealSig_deserialize E (drop (headerLen E) msg) = Inr m \<and>
    decrypt E (revealSig_r m) (encryptedGx a) = Inr dg \<longrightarrow>
      (\<exists>e. processRevealSig E a msg = (Failure e, a) \<and>
         (sha256Sum E dg = hashedGx a \<longrightarrow> e = ErrorsNew ''otr: DH value out of range''))) \<and>
   (dhKey_deserialize E = dhKey_deserialize_spec (dhPrime E) \<and>
    headerLen E \<le> length kmsg \<and>
    extractMPI (drop (headerLen E) kmsg) = ([], gy, True) \<and>
    (gy < 2 \<or> gy > dhPrime E - 2) \<longrightarrow>
      processDHKey E a kmsg = (Failure (ErrorsNew ''otr: DH value out of range''), a)) \<and>
   (processRevealSig E a msg = (res, a') \<and> theirPublicValue a' \<noteq> theirPublicValue a \<longrightarrow>
      (\<exists>v. theirPublicValue a' = Some v \<and> 2 \<le> v \<and> v \<le> dhPrime E - 2)) \<and>
   (dhKey_deserialize E = dhKey_deserialize_spec (dhPrime E) \<and>
    processDHKey E a kmsg = (bres, a'') \<and> theirPublicValue a'' \<noteq> theirPublicValue a \<longrightarrow>
      (\<exists>v. theirPublicValue a'' = Some v \<and> 2 \<le> v \<and> v \<le> dhPrime E - 2))"
proof (intro conjI impI)
  assume "extractMPI dg = ([], gx, True) \<and> (gx < 2 \<or> gx > dhPrime E - 2)"
  then show "extractGx E dg = Inl (ErrorsNew ''otr: DH value out of range'')"
    by (auto simp: extractGx_def lt_def gt_def g1_def pMinusTwo_def)
next
  assume h: "extractMPI dg = ([], gx, True) \<and> (gx < 2 \<or> gx > dhPrime E - 2) \<and>
    headerLen E \<le> length msg \<and>
    revealSig_deserialize E (drop (headerLen E) msg) = Inr m \<and>
    decrypt E (revealSig_r m) (encryptedGx a) = Inr dg"
  then have "extractGx E dg = Inl (ErrorsNew ''otr: DH value out of range'')"
    by (auto simp: extractGx_def lt_def gt_def g1_def pMinusTwo_def)
  with h show "\<exists>e. processRevealSig E a msg = (Failure e, a) \<and>
         (sha256Sum E dg = hashedGx a \<longrightarrow> e = ErrorsNew ''otr: DH value out of range'')"
    by (simp add: processRevealSig_def chainErrors_def ensureValidMessage_def
        checkDecryptedGx_def ConstantTimeCompare_eq)
next
  assume "dhKey_deserialize E = dhKey_deserialize_spec (dhPrime E) \<and>
    headerLen E \<le> length kmsg \<and>
    extractMPI (drop (headerLen E) kmsg) = ([], gy, True) \<and>
    (gy < 2 \<or> gy > dhPrime E - 2)"
  then show "processDHKey E a kmsg = (Failure (ErrorsNew ''otr: DH value out of range''), a)"
    by (auto simp: processDHKey_def chainErrors_def ensureValidMessage_def
        dhKey_deserialize_spec_def lt_def gt_def g1_def)
next
  assume "processRevealSig E a msg = (res, a') \<and> theirPublicValue a' \<noteq> theirPublicValue a"
  then show "\<exists>v. theirPublicValue a' = Some v \<and> 2 \<le> v \<and> v \<le> dhPrime E - 2"
    by (auto simp: processRevealSig_def chainErrors_def ensureValidMessage_def Let_def
        extractGx_def lt_def gt_def g1_def pMinusTwo_def calcAKEKeys_def
        dest!: processEncryptedSig_state
        split: if_splits sum.splits option.splits prod.splits ret.splits)
next
  assume "dhKey_deserialize E = dhKey_deserialize_spec (dhPrime E) \<and>
    processDHKey E a kmsg = (bres, a'') \<and> theirPublicValue a'' \<noteq> theirPublicValue a"
  then show "\<exists>v. theirPublicValue a'' = Some v \<and> 2 \<le> v \<and> v \<le> dhPrime E - 2"
    by (auto simp: processDHKey_def chainErrors_def ensureValidMessage_def
        dhKey_deserialize_spec_def lt_def gt_def g1_def
        split: if_splits sum.splits option.splits prod.splits)
qed

theorem dh_value_out_of_range_rejected_witness:
  "extractGx toyEnv [0, 0, 0, 1, 1] = Inl (ErrorsNew ''otr: DH value out of range'') \<and>
   processRevealSig toyEnv (wResponder\<lparr>encryptedGx := [0, 0, 0, 1, 22]\<rparr>) wRevealSigMsg =
     (Failure (ErrorsNew ''otr: DH value out of range''),
      wResponder\<lparr>encryptedGx := [0, 0, 0, 1, 22]\<rparr>) \<and>
   processDHKey toyEnv toyAKE [0, 2, 10, 0, 0, 0, 1, 1] =
     (Failure (ErrorsNew ''otr: DH value out of range''), toyAKE) \<and>
   (\<exists>v. theirPublicValue (wResponder\<lparr>theirPublicValue := Some 5, theirKey := Some ()\<rparr>) = Some v \<and>
      2 \<le> v \<and> v \<le> dhPrime toyEnv - 2) \<and>
   (\<exists>v. theirPublicValue (toyAKE\<lparr>theirPublicValue := Some 5\<rparr>) = Some v \<and>
      2 \<le> v \<and> v \<le> dhPrime toyEnv - 2)"
proof (intro conjI)
  have h1: "extractMPI [0, 0, 0, 1, 1] = ([], 1, True) \<and> ((1 :: int) < 2 \<or> 1 > dhPrime toyEnv - 2)"
    by code_simp
  from dh_value_out_of_range_rejected [THEN conjunct1, THEN mp, OF h1]
  show "extractGx toyEnv [0, 0, 0, 1, 1] = Inl (ErrorsNew ''otr: DH value out of range'')" .
next
  let ?a = "wResponder\<lparr>encryptedGx := [0, 0, 0, 1, 22]\<rparr>"
  let ?m = "\<lparr>revealSig_messageHeader = [], revealSig_r = replicate 16 0,
           revealSig_encryptedSig = [0, 0, 0, 0, 1], revealSig_macSig = replicate 20 0\<rparr>"
  have h2: "extractMPI [0, 0, 0, 1, 22] = ([], 22, True) \<and>
    ((22 :: int) < 2 \<or> 22 > dhPrime toyEnv - 2) \<and>
    headerLen toyEnv \<le> length wRevealSigMsg \<and>
    revealSig_deserialize toyEnv (drop (headerLen toyEnv) wRevealSigMsg) = Inr ?m \<and>
    decrypt toyEnv (revealSig_r ?m) (encryptedGx ?a) = Inr [0, 0, 0, 1, 22]"
    by code_simp
  have hash: "sha256Sum toyEnv [0, 0, 0, 1, 22] = hashedGx ?a"
    by code_simp
  from dh_value_out_of_range_rejected [THEN conjunct2, THEN conjunct1, THEN mp, OF h2] hash
  show "processRevealSig toyEnv ?a wRevealSigMsg =
     (Failure (ErrorsNew ''otr: DH value out of range''), ?a)"
    by auto
next
  have h3: "dhKey_deserialize toyEnv = dhKey_deserialize_spec (dhPrime toyEnv) \<and>
    headerLen toyEnv \<le> length [0, 2, 10, 0, 0, 0, 1, 1 :: byte] \<and>
    extractMPI (drop (headerLen toyEnv) [0, 2, 10, 0, 0, 0, 1, 1]) = ([], 1, True) \<and>
    ((1 :: int) < 2 \<or> 1 > dhPrime toyEnv - 2)"
    by (simp add: toyEnv_def extractMPI_def extractWord_def bytesToInt_def)
  from dh_value_out_of_range_rejected
         [THEN conjunct2, THEN conjunct2, THEN conjunct1, THEN mp, OF h3]
  show "processDHKey toyEnv toyAKE [0, 2, 10, 0, 0, 0, 1, 1] =
     (Failure (ErrorsNew ''otr: DH value out of range''), toyAKE)" .
next
  have run: "processRevealSig toyEnv wResponder wRevealSigMsg =
      (Value (), wResponder\<lparr>theirPublicValue := Some 5, theirKey := Some ()\<rparr>)"
    by code_simp
  have ne: "theirPublicValue (wResponder\<lparr>theirPublicValue := Some 5, theirKey := Some ()\<rparr>)
      \<noteq> theirPublicValue wResponder"
    by (simp add: wResponder_def toyAKE_def)
  from dh_value_out_of_range_rejected
         [THEN conjunct2, THEN conjunct2, THEN conjunct2, THEN conjunct1, THEN mp,
          OF conjI [OF run ne]]
  show "\<exists>v. theirPublicValue (wResponder\<lparr>theirPublicValue := Some 5, theirKey := Some ()\<rparr>) = Some v \<and>
      2 \<le> v \<and> v \<le> dhPrime toyEnv - 2" .
next
  have spec: "dhKey_deserialize toyEnv = dhKey_deserialize_spec (dhPrime toyEnv)"
    by (simp add: toyEnv_def)
  have run: "processDHKey toyEnv toyAKE wKeyMsg = (Value False, toyAKE\<lparr>theirPublicValue := Some 5\<rparr>)"
    by code_simp
  have ne: "theirPublicValue (toyAKE\<lparr>theirPublicValue := Some 5\<rparr>) \<noteq> theirPublicValue toyAKE"
    by (simp add: toyAKE_def)
  from dh_value_out_of_range_rejected
         [THEN conjunct2, THEN conjunct2, THEN conjunct2, THEN conjunct2, THEN mp,
          OF conjI [OF spec conjI [OF run ne]]]
  show "\<exists>v. theirPublicValue (toyAKE\<lparr>theirPublicValue := Some 5\<rparr>) = Some v \<and>
      2 \<le> v \<and> v \<le> dhPrime toyEnv - 2" .
qed

subsection \<open>C3: only the first gy is kept\<close>

text \<open>
  C3. For a DHKey message that parses to \<open>gy\<close>: when \<open>theirPublicValue\<close> is already
  set to \<open>v\<close>, \<open>processDHKey\<close> returns \<open>isSame = (v = gy)\<close> with a nil error and the
  context unchanged, also when the values differ; when it is not set, \<open>gy\<close> is stored.
\<close>

theorem processDHKey_keeps_first_gy:
  assumes "headerLen E \<le> length msg"
    and "dhKey_deserialize E (drop (headerLen E) msg) = Inr m"
    and "dhKey_gy m = Some gy"
  shows "(theirPublicValue a = Some v \<longrightarrow> processDHKey E a msg = (Value (v = gy), a)) \<and>
         (theirPublicValue a = None \<longrightarrow>
            processDHKey E a msg = (Value False, a\<lparr>theirPublicValue := Some gy\<rparr>))"
  using assms
  by (simp add: processDHKey_def chainErrors_def ensureValidMessage_def eq_def)

theorem processDHKey_keeps_first_gy_witness:
  "processDHKey toyEnv (toyAKE\<lparr>theirPublicValue := Some 7\<rparr>) wKeyMsg =
     (Value False, toyAKE\<lparr>theirPublicValue := Some 7\<rparr>) \<and>
   processDHKey toyEnv (toyAKE\<lparr>theirPublicValue := Some 5\<rparr>) wKeyMsg =
     (Value True, toyAKE\<lparr>theirPublicValue := Some 5\<rparr>) \<and>
   processDHKey toyEnv toyAKE wKeyMsg = (Value False, toyAKE\<lparr>theirPublicValue := Some 5\<rparr>)"
proof -
  have h1: "headerLen toyEnv \<le> length wKeyMsg"
    by code_simp
  have h2: "dhKey_deserialize toyEnv (drop (headerLen toyEnv) wKeyMsg) =
      Inr \<lparr>dhKey_messageHeader = [], dhKey_gy = Some 5\<rparr>"
    by code_simp
  have h3: "dhKey_gy \<lparr>dhKey_messageHeader = [], dhKey_gy = Some 5\<rparr> = Some 5"
    by simp
  note t = processDHKey_keeps_first_gy [OF h1 h2 h3]
  have "processDHKey toyEnv (toyAKE\<lparr>theirPublicValue := Some 7\<rparr>) wKeyMsg =
     (Value False, toyAKE\<lparr>theirPublicValue := Some 7\<rparr>)"
    using t [of "toyAKE\<lparr>theirPublicValue := Some 7\<rparr>" 7] by simp
  moreover have "processDHKey toyEnv (toyAKE\<lparr>theirPublicValue := Some 5\<rparr>) wKeyMsg =
     (Value True, toyAKE\<lparr>theirPublicValue := Some 5\<rparr>)"
    using t [of "toyAKE\<lparr>theirPublicValue := Some 5\<rparr>" 5] by simp
  moreover have "processDHKey toyEnv toyAKE wKeyMsg =
     (Value False, toyAKE\<lparr>theirPublicValue := Some 5\<rparr>)"
    using t [of toyAKE] by (simp add: toyAKE_def)
  ultimately show ?thesis by simp
qed

subsection \<open>C4: the MAC of the encrypted signature\<close>

lemma word_of_bytes:
  "push_bit 24 (ucast (ucast (drop_bit 24 w) :: byte)) OR
   push_bit 16 (ucast (ucast (drop_bit 16 w) :: byte)) OR
   push_bit 8 (ucast (ucast (drop_bit 8 w) :: byte)) OR
   ucast (ucast w :: byte) = (w :: 32 word)"
proof (rule bit_word_eqI)
  fix n :: nat
  assume "n < LENGTH(32)"
  then have n: "n < 32" by simp
  consider "n < 8" | "8 \<le> n" "n < 16" | "16 \<le> n" "n < 24" | "24 \<le> n" "n < 32"
    using n by linarith
  then show "bit (push_bit 24 (ucast (ucast (drop_bit 24 w) :: byte)) OR
       push_bit 16 (ucast (ucast (drop_bit 16 w) :: byte)) OR
       push_bit 8 (ucast (ucast (drop_bit 8 w) :: byte)) OR
       ucast (ucast w :: byte) :: 32 word) n = bit w n"
    by cases (auto simp: bit_simps)
qed

lemma extractWord_appendWord: "extractWord (appendWord [] w @ rest) = (rest, w, True)"
  by (simp add: extractWord_def appendWord_def word_of_bytes)

lemma extractData_appendData:
  "length d < 2 ^ 32 \<Longrightarrow> extractData (appendData [] d @ rest) = (rest, d, True)"
  by (simp add: extractData_def appendData_def extractWord_appendWord unat_of_nat)

lemma appendData_prefix: "appendData l d = l @ appendData [] d"
  by (simp add: appendData_def appendWord_def)

lemma length_appendData: "length (appendData l d) = length l + 4 + length d"
  by (simp add: appendData_def appendWord_def)

lemma revealSig_roundtrip:
  assumes "length rr = 16" and "length xb < 2 ^ 32" and "20 \<le> length mac"
  shows "revealSig_deserialize_spec
           (drop (length hdr)
              (revealSig_serialize_spec
                 \<lparr>revealSig_messageHeader = hdr, revealSig_r = rr,
                  revealSig_encryptedSig = appendData [] xb, revealSig_macSig = mac\<rparr>)) =
         Inr \<lparr>revealSig_messageHeader = [], revealSig_r = rr,
              revealSig_encryptedSig = xb, revealSig_macSig = take 20 mac\<rparr>"
proof -
  have rr: "length rr < 2 ^ 32"
    using assms(1) by simp
  have body: "drop (length hdr)
      (revealSig_serialize_spec
         \<lparr>revealSig_messageHeader = hdr, revealSig_r = rr,
          revealSig_encryptedSig = appendData [] xb, revealSig_macSig = mac\<rparr>) =
      appendData [] rr @ (appendData [] xb @ take 20 mac)"
    by (simp add: revealSig_serialize_spec_def appendData_prefix [of hdr])
  show ?thesis
    unfolding body revealSig_deserialize_spec_def
    using assms
    by (simp add: extractData_appendData [OF rr] extractData_appendData [OF assms(2)])
qed

lemma sig_roundtrip:
  assumes "length xb < 2 ^ 32" and "20 \<le> length mac"
  shows "sig_deserialize_spec
           (drop (length hdr)
              (sig_serialize_spec
                 \<lparr>sig_messageHeader = hdr, sig_encryptedSig = appendData [] xb,
                  sig_macSig = mac\<rparr>)) =
         Inr \<lparr>sig_messageHeader = [], sig_encryptedSig = xb, sig_macSig = take 20 mac\<rparr>"
  using assms
  by (simp add: sig_serialize_spec_def sig_deserialize_spec_def
      extractData_appendData [OF assms(1)])

lemma generateEncryptedSignature_Value:
  "generateEncryptedSignature E a k = (Value es, a') \<Longrightarrow>
     (\<exists>xb. es = appendData [] xb) \<and> revealKey a' = revealKey a \<and> sigKey a' = sigKey a \<and>
     r a' = r a"
  by (auto simp: generateEncryptedSignature_def calcXb_def Let_def
      split: option.splits prod.splits ret.splits sum.splits if_splits)

lemma revealSigMessage_Value:
  assumes "revealSigMessage E a = (Value wire, a1)"
  shows "\<exists>xb. wire =
           revealSig_serialize E
             \<lparr>revealSig_messageHeader = messageHeader E, revealSig_r = r a1,
              revealSig_encryptedSig = appendData [] xb,
              revealSig_macSig = sumHMAC E (m2 (revealKey a1)) (appendData [] xb)\<rparr>"
  using assms
  by (auto simp: revealSigMessage_def Let_def
      split: option.splits prod.splits ret.splits
      dest!: generateEncryptedSignature_Value)

lemma sigMessage_Value:
  assumes "sigMessage E a = (Value wire, a1)"
  shows "\<exists>xb. wire =
           sig_serialize E
             \<lparr>sig_messageHeader = messageHeader E,
              sig_encryptedSig = appendData [] xb,
              sig_macSig = sumHMAC E (m2 (sigKey a1)) (appendData [] xb)\<rparr>"
  using assms
  by (auto simp: sigMessage_def Let_def
      split: option.splits prod.splits ret.splits
      dest!: generateEncryptedSignature_Value)

lemma mac_check_passes:
  assumes "20 \<le> length (sumHMAC E (m2 k) (appendData [] es))"
    and "decrypt E (c k) es = Inr ds"
  shows "fst (processEncryptedSig E b es (take 20 (sumHMAC E (m2 k) (appendData [] es))) k)
           \<noteq> Failure (ErrorsNew ''bad signature MAC in encrypted signature'')"
  using assms
  by (auto simp: processEncryptedSig_def Let_def ConstantTimeCompare_eq
      split: prod.splits option.splits)

text \<open>
  C4. With the wire format of the spec and a 32-byte HMAC, the message that
  \<open>revealSigMessage\<close> returns is the header, \<open>r\<close>, the framed encrypted signature and
  the first 20 bytes of \<open>sumHMAC revealKey.m2\<close> over that frame. The receiver's
  \<open>deserialize\<close> gives back the payload \<open>xb\<close> and those 20 bytes, which are the value
  that \<open>processEncryptedSig\<close> recomputes from \<open>xb\<close> under the same \<open>m2\<close>: when the
  payload decrypts, the result is not the MAC error. The same holds for
  \<open>sigMessage\<close> with \<open>sigKey\<close>.
\<close>

theorem macSig_matches_receiver_check:
  "(specWire E \<and> (\<forall>key d. length (hmac_sha256 E key d) = 32) \<and>
    revealSigMessage E a = (Value wire, a1) \<and> length (r a1) = 16 \<and> length wire < 2 ^ 32 \<longrightarrow>
      (\<exists>xb. wire =
              appendData (messageHeader E) (r a1) @ appendData [] xb
                @ take 20 (sumHMAC E (m2 (revealKey a1)) (appendData [] xb)) \<and>
            revealSig_deserialize E (drop (headerLen E) wire) =
              Inr \<lparr>revealSig_messageHeader = [], revealSig_r = r a1,
                   revealSig_encryptedSig = xb,
                   revealSig_macSig =
                     take 20 (sumHMAC E (m2 (revealKey a1)) (appendData [] xb))\<rparr> \<and>
            (\<forall>b k ds. m2 k = m2 (revealKey a1) \<and> decrypt E (c k) xb = Inr ds \<longrightarrow>
               fst (processEncryptedSig E b xb
                      (take 20 (sumHMAC E (m2 (revealKey a1)) (appendData [] xb))) k)
                 \<noteq> Failure (ErrorsNew ''bad signature MAC in encrypted signature'')))) \<and>
   (specWire E \<and> (\<forall>key d. length (hmac_sha256 E key d) = 32) \<and>
    sigMessage E a = (Value wire, a1) \<and> length wire < 2 ^ 32 \<longrightarrow>
      (\<exists>xb. wire =
              messageHeader E @ appendData [] xb
                @ take 20 (sumHMAC E (m2 (sigKey a1)) (appendData [] xb)) \<and>
            sig_deserialize E (drop (headerLen E) wire) =
              Inr \<lparr>sig_messageHeader = [], sig_encryptedSig = xb,
                   sig_macSig = take 20 (sumHMAC E (m2 (sigKey a1)) (appendData [] xb))\<rparr> \<and>
            (\<forall>b k ds. m2 k = m2 (sigKey a1) \<and> decrypt E (c k) xb = Inr ds \<longrightarrow>
               fst (processEncryptedSig E b xb
                      (take 20 (sumHMAC E (m2 (sigKey a1)) (appendData [] xb))) k)
                 \<noteq> Failure (ErrorsNew ''bad signature MAC in encrypted signature''))))"
proof (intro conjI impI)
  assume h: "specWire E \<and> (\<forall>key d. length (hmac_sha256 E key d) = 32) \<and>
    revealSigMessage E a = (Value wire, a1) \<and> length (r a1) = 16 \<and> length wire < 2 ^ 32"
  then have wf: "revealSig_serialize E = revealSig_serialize_spec"
      "revealSig_deserialize E = revealSig_deserialize_spec"
      "length (messageHeader E) = headerLen E"
    by (simp_all add: specWire_def)
  from h have len: "length (sumHMAC E key d) = 32" for key d
    by (simp add: sumHMAC_def)
  from h obtain xb where wire: "wire =
      revealSig_serialize_spec
        \<lparr>revealSig_messageHeader = messageHeader E, revealSig_r = r a1,
         revealSig_encryptedSig = appendData [] xb,
         revealSig_macSig = sumHMAC E (m2 (revealKey a1)) (appendData [] xb)\<rparr>"
    using revealSigMessage_Value [of E a wire a1] wf(1) by auto
  let ?mac = "sumHMAC E (m2 (revealKey a1)) (appendData [] xb)"
  have shape: "wire = appendData (messageHeader E) (r a1) @ appendData [] xb @ take 20 ?mac"
    by (simp add: wire revealSig_serialize_spec_def)
  from h have "length wire < 2 ^ 32" by simp
  then have xb: "length xb < 2 ^ 32"
    by (simp add: shape length_appendData)
  from h have r16: "length (r a1) = 16" by simp
  have dec: "revealSig_deserialize E (drop (headerLen E) wire) =
      Inr \<lparr>revealSig_messageHeader = [], revealSig_r = r a1,
           revealSig_encryptedSig = xb, revealSig_macSig = take 20 ?mac\<rparr>"
    unfolding wf(2) wf(3) [symmetric] wire
    by (rule revealSig_roundtrip [OF r16 xb]) (simp add: len)
  have chk: "\<forall>b k ds. m2 k = m2 (revealKey a1) \<and> decrypt E (c k) xb = Inr ds \<longrightarrow>
      fst (processEncryptedSig E b xb (take 20 ?mac) k)
        \<noteq> Failure (ErrorsNew ''bad signature MAC in encrypted signature'')"
  proof -
    have "fst (processEncryptedSig E b xb (take 20 ?mac) k)
        \<noteq> Failure (ErrorsNew ''bad signature MAC in encrypted signature'')"
      if "m2 k = m2 (revealKey a1) \<and> decrypt E (c k) xb = Inr ds" for b k ds
      using that mac_check_passes [of E k xb ds b] by (simp add: len)
    then show ?thesis by blast
  qed
  from shape dec chk
  show "\<exists>xb. wire =
              appendData (messageHeader E) (r a1) @ appendData [] xb
                @ take 20 (sumHMAC E (m2 (revealKey a1)) (appendData [] xb)) \<and>
            revealSig_deserialize E (drop (headerLen E) wire) =
              Inr \<lparr>revealSig_messageHeader = [], revealSig_r = r a1,
                   revealSig_encryptedSig = xb,
                   revealSig_macSig =
                     take 20 (sumHMAC E (m2 (revealKey a1)) (appendData [] xb))\<rparr> \<and>
            (\<forall>b k ds. m2 k = m2 (revealKey a1) \<and> decrypt E (c k) xb = Inr ds \<longrightarrow>
               fst (processEncryptedSig E b xb
                      (take 20 (sumHMAC E (m2 (revealKey a1)) (appendData [] xb))) k)
                 \<noteq> Failure (ErrorsNew ''bad signature MAC in encrypted signature''))"
    by blast
next
  assume h: "specWire E \<and> (\<forall>key d. length (hmac_sha256 E key d) = 32) \<and>
    sigMessage E a = (Value wire, a1) \<and> length wire < 2 ^ 32"
  then have wf: "sig_serialize E = sig_serialize_spec"
      "sig_deserialize E = sig_deserialize_spec"
      "length (messageHeader E) = headerLen E"
    by (simp_all add: specWire_def)
  from h have len: "length (sumHMAC E key d) = 32" for key d
    by (simp add: sumHMAC_def)
  from h obtain xb where wire: "wire =
      sig_serialize_spec
        \<lparr>sig_messageHeader = messageHeader E,
         sig_encryptedSig = appendData [] xb,
         sig_macSig = sumHMAC E (m2 (sigKey a1)) (appendData [] xb)\<rparr>"
    using sigMessage_Value [of E a wire a1] wf(1) by auto
  let ?mac = "sumHMAC E (m2 (sigKey a1)) (appendData [] xb)"
  have shape: "wire = messageHeader E @ appendData [] xb @ take 20 ?mac"
    by (simp add: wire sig_serialize_spec_def)
  from h have "length wire < 2 ^ 32" by simp
  then have xb: "length xb < 2 ^ 32"
    by (simp add: shape length_appendData)
  have dec: "sig_deserialize E (drop (headerLen E) wire) =
      Inr \<lparr>sig_messageHeader = [], sig_encryptedSig = xb, sig_macSig = take 20 ?mac\<rparr>"
    unfolding wf(2) wf(3) [symmetric] wire
    by (rule sig_roundtrip [OF xb]) (simp add: len)
  have chk: "\<forall>b k ds. m2 k = m2 (sigKey a1) \<and> decrypt E (c k) xb = Inr ds \<longrightarrow>
      fst (processEncryptedSig E b xb (take 20 ?mac) k)
        \<noteq> Failure (ErrorsNew ''bad signature MAC in encrypted signature'')"
  proof -
    have "fst (processEncryptedSig E b xb (take 20 ?mac) k)
        \<noteq> Failure (ErrorsNew ''bad signature MAC in encrypted signature'')"
      if "m2 k = m2 (sigKey a1) \<and> decrypt E (c k) xb = Inr ds" for b k ds
      using that mac_check_passes [of E k xb ds b] by (simp add: len)
    then show ?thesis by blast
  qed
  from shape dec chk
  show "\<exists>xb. wire =
              messageHeader E @ appendData [] xb
                @ take 20 (sumHMAC E (m2 (sigKey a1)) (appendData [] xb)) \<and>
            sig_deserialize E (drop (headerLen E) wire) =
              Inr \<lparr>sig_messageHeader = [], sig_encryptedSig = xb,
                   sig_macSig = take 20 (sumHMAC E (m2 (sigKey a1)) (appendData [] xb))\<rparr> \<and>
            (\<forall>b k ds. m2 k = m2 (sigKey a1) \<and> decrypt E (c k) xb = Inr ds \<longrightarrow>
               fst (processEncryptedSig E b xb
                      (take 20 (sumHMAC E (m2 (sigKey a1)) (appendData [] xb))) k)
                 \<noteq> Failure (ErrorsNew ''bad signature MAC in encrypted signature''))"
    by blast
qed

theorem macSig_matches_receiver_check_witness:
  "(\<exists>xb. wRevealSigWire =
           appendData (messageHeader toyEnv) (r wInitiator) @ appendData [] xb
             @ take 20 (sumHMAC toyEnv (m2 (revealKey wInitiator)) (appendData [] xb)) \<and>
         revealSig_deserialize toyEnv (drop (headerLen toyEnv) wRevealSigWire) =
           Inr \<lparr>revealSig_messageHeader = [], revealSig_r = r wInitiator,
                revealSig_encryptedSig = xb,
                revealSig_macSig =
                  take 20 (sumHMAC toyEnv (m2 (revealKey wInitiator)) (appendData [] xb))\<rparr> \<and>
         (\<forall>b k ds. m2 k = m2 (revealKey wInitiator) \<and> decrypt toyEnv (c k) xb = Inr ds \<longrightarrow>
            fst (processEncryptedSig toyEnv b xb
                   (take 20 (sumHMAC toyEnv (m2 (revealKey wInitiator)) (appendData [] xb))) k)
              \<noteq> Failure (ErrorsNew ''bad signature MAC in encrypted signature''))) \<and>
   (\<exists>xb. wSigWire =
           messageHeader toyEnv @ appendData [] xb
             @ take 20 (sumHMAC toyEnv (m2 (sigKey (wResponder\<lparr>theirPublicValue := Some 5\<rparr>)))
                          (appendData [] xb)) \<and>
         sig_deserialize toyEnv (drop (headerLen toyEnv) wSigWire) =
           Inr \<lparr>sig_messageHeader = [], sig_encryptedSig = xb,
                sig_macSig =
                  take 20 (sumHMAC toyEnv (m2 (sigKey (wResponder\<lparr>theirPublicValue := Some 5\<rparr>)))
                             (appendData [] xb))\<rparr> \<and>
         (\<forall>b k ds. m2 k = m2 (sigKey (wResponder\<lparr>theirPublicValue := Some 5\<rparr>)) \<and>
              decrypt toyEnv (c k) xb = Inr ds \<longrightarrow>
            fst (processEncryptedSig toyEnv b xb
                   (take 20 (sumHMAC toyEnv (m2 (sigKey (wResponder\<lparr>theirPublicValue := Some 5\<rparr>)))
                              (appendData [] xb))) k)
              \<noteq> Failure (ErrorsNew ''bad signature MAC in encrypted signature''))) \<and>
   processRevealSig toyEnv wResponder wRevealSigWire =
     (Value (), wResponder\<lparr>theirPublicValue := Some 5, theirKey := Some ()\<rparr>) \<and>
   processSig toyEnv wInitiator wSigWire = (Value (), wInitiator\<lparr>theirKey := Some ()\<rparr>)"
proof (intro conjI)
  have wire: "specWire toyEnv"
    by (simp add: specWire_def toyEnv_def)
  have len: "\<forall>key d. length (hmac_sha256 toyEnv key d) = 32"
    by (simp add: toyEnv_def)
  have run1: "revealSigMessage toyEnv wInitiator = (Value wRevealSigWire, wInitiator)"
    by code_simp
  have sz1: "length (r wInitiator) = 16 \<and> length wRevealSigWire < 2 ^ 32"
    by (simp add: wInitiator_def toyAKE_def wRevealSigWire_def)
  from macSig_matches_receiver_check [THEN conjunct1, THEN mp,
         OF conjI [OF wire conjI [OF len conjI [OF run1 sz1]]]]
  show "\<exists>xb. wRevealSigWire =
           appendData (messageHeader toyEnv) (r wInitiator) @ appendData [] xb
             @ take 20 (sumHMAC toyEnv (m2 (revealKey wInitiator)) (appendData [] xb)) \<and>
         revealSig_deserialize toyEnv (drop (headerLen toyEnv) wRevealSigWire) =
           Inr \<lparr>revealSig_messageHeader = [], revealSig_r = r wInitiator,
                revealSig_encryptedSig = xb,
                revealSig_macSig =
                  take 20 (sumHMAC toyEnv (m2 (revealKey wInitiator)) (appendData [] xb))\<rparr> \<and>
         (\<forall>b k ds. m2 k = m2 (revealKey wInitiator) \<and> decrypt toyEnv (c k) xb = Inr ds \<longrightarrow>
            fst (processEncryptedSig toyEnv b xb
                   (take 20 (sumHMAC toyEnv (m2 (revealKey wInitiator)) (appendData [] xb))) k)
              \<noteq> Failure (ErrorsNew ''bad signature MAC in encrypted signature''))" .
  have run2: "sigMessage toyEnv (wResponder\<lparr>theirPublicValue := Some 5\<rparr>) =
      (Value wSigWire, wResponder\<lparr>theirPublicValue := Some 5\<rparr>)"
    by code_simp
  have sz2: "length wSigWire < 2 ^ 32"
    by (simp add: wSigWire_def)
  from macSig_matches_receiver_check [THEN conjunct2, THEN mp,
         OF conjI [OF wire conjI [OF len conjI [OF run2 sz2]]]]
  show "\<exists>xb. wSigWire =
           messageHeader toyEnv @ appendData [] xb
             @ take 20 (sumHMAC toyEnv (m2 (sigKey (wResponder\<lparr>theirPublicValue := Some 5\<rparr>)))
                          (appendData [] xb)) \<and>
         sig_deserialize toyEnv (drop (headerLen toyEnv) wSigWire) =
           Inr \<lparr>sig_messageHeader = [], sig_encryptedSig = xb,
                sig_macSig =
                  take 20 (sumHMAC toyEnv (m2 (sigKey (wResponder\<lparr>theirPublicValue := Some 5\<rparr>)))
                             (appendData [] xb))\<rparr> \<and>
         (\<forall>b k ds. m2 k = m2 (sigKey (wResponder\<lparr>theirPublicValue := Some 5\<rparr>)) \<and>
              decrypt toyEnv (c k) xb = Inr ds \<longrightarrow>
            fst (processEncryptedSig toyEnv b xb
                   (take 20 (sumHMAC toyEnv (m2 (sigKey (wResponder\<lparr>theirPublicValue := Some 5\<rparr>)))
                              (appendData [] xb))) k)
              \<noteq> Failure (ErrorsNew ''bad signature MAC in encrypted signature''))" .
  show "processRevealSig toyEnv wResponder wRevealSigWire =
     (Value (), wResponder\<lparr>theirPublicValue := Some 5, theirKey := Some ()\<rparr>)"
    by code_simp
  show "processSig toyEnv wInitiator wSigWire = (Value (), wInitiator\<lparr>theirKey := Some ()\<rparr>)"
    by code_simp
qed

subsection \<open>C5: the two authentication errors\<close>

text \<open>
  C5 as stated fails: a Signature message whose MAC does not match and one whose
  signature does not verify give \<open>processSig\<close> (and \<open>processEncryptedSig\<close>) two
  errors with different texts.
\<close>

theorem auth_failure_errors_differ_counterexample:
  "processSig toyEnv wInitiator wSigMsgBadMAC =
     (Failure (ErrorsNew ''otr: in signature message: bad signature MAC in encrypted signature''),
      wInitiator) \<and>
   processSig toyEnv wInitiator wSigMsgBadSig =
     (Failure (ErrorsNew ''otr: in signature message: bad signature in encrypted signature''),
      wInitiator\<lparr>theirKey := Some ()\<rparr>) \<and>
   fst (processSig toyEnv wInitiator wSigMsgBadMAC) \<noteq>
     fst (processSig toyEnv wInitiator wSigMsgBadSig) \<and>
   fst (processEncryptedSig toyEnv wInitiator [0, 0, 0, 0, 1] (replicate 20 1) toyKeys) \<noteq>
     fst (processEncryptedSig toyEnv wInitiator [0, 0, 0, 0, 2] (replicate 20 0) toyKeys)"
  by code_simp

text \<open>
  C5, amended. When \<open>processEncryptedSig\<close> stops at the MAC comparison the error is
  \<^verbatim>\<open>errors.New("bad signature MAC in encrypted signature")\<close>; when it stops at the
  signature verification the error is
  \<^verbatim>\<open>errors.New("bad signature in encrypted signature")\<close>. \<open>processSig\<close> returns
  \<^verbatim>\<open>errors.New\<close> of the text prefixed by \<^verbatim>\<open>"otr: in signature message: "\<close>, and
  \<open>processRevealSig\<close> gives \<^verbatim>\<open>newOtrError\<close> the text prefixed by
  \<^verbatim>\<open>"in reveal signature message: "\<close>.
\<close>

theorem auth_failure_errors_name_the_check:
  "(20 \<le> length (sumHMAC E (m2 k) (appendData [] es)) \<and>
    mac \<noteq> take 20 (sumHMAC E (m2 k) (appendData [] es)) \<longrightarrow>
      processEncryptedSig E a es mac k =
        (Failure (ErrorsNew ''bad signature MAC in encrypted signature''), a)) \<and>
   (20 \<le> length (sumHMAC E (m2 k) (appendData [] es)) \<and>
    mac = take 20 (sumHMAC E (m2 k) (appendData [] es)) \<and>
    decrypt E (c k) es = Inr ds \<and>
    parseKey E ds = (np, pk, True) \<and>
    4 \<le> length np \<and>
    extractWord np = (np', keyID, True) \<and>
    appendAll E (theirPublicValue a) (ourPublicValue a) pk keyID = Some vd \<and>
    verify E pk (sumHMAC E (m1 k) vd) (drop 4 np) = (rest, False) \<longrightarrow>
      processEncryptedSig E a es mac k =
        (Failure (ErrorsNew ''bad signature in encrypted signature''),
         a\<lparr>theirKey := Some pk\<rparr>)) \<and>
   (headerLen E \<le> length msg \<and>
    sig_deserialize E (drop (headerLen E) msg) = Inr sm \<and>
    processEncryptedSig E a (sig_encryptedSig sm) (sig_macSig sm) (sigKey a) =
      (Failure (ErrorsNew txt), a') \<longrightarrow>
      processSig E a msg =
        (Failure (ErrorsNew (''otr: in signature message: '' @ txt)), a')) \<and>
   (headerLen E \<le> length msg \<and>
    revealSig_deserialize E (drop (headerLen E) msg) = Inr rm \<and>
    decrypt E (revealSig_r rm) (encryptedGx a) = Inr dg \<and>
    sha256Sum E dg = hashedGx a \<and>
    extractGx E dg = Inr gx \<and>
    calcDHSharedSecret E (a\<lparr>theirPublicValue := Some gx\<rparr>) = Some s \<and>
    processEncryptedSig E (calcAKEKeys E (a\<lparr>theirPublicValue := Some gx\<rparr>) s)
        (revealSig_encryptedSig rm) (revealSig_macSig rm)
        (revealKey (calcAKEKeys E (a\<lparr>theirPublicValue := Some gx\<rparr>) s)) =
      (Failure (ErrorsNew txt), a') \<longrightarrow>
      processRevealSig E a msg =
        (Failure (NewOtrError (''in reveal signature message: '' @ txt)), a'))"
proof (intro conjI impI)
  assume "20 \<le> length (sumHMAC E (m2 k) (appendData [] es)) \<and>
    mac \<noteq> take 20 (sumHMAC E (m2 k) (appendData [] es))"
  then show "processEncryptedSig E a es mac k =
        (Failure (ErrorsNew ''bad signature MAC in encrypted signature''), a)"
    by (auto simp: processEncryptedSig_def Let_def ConstantTimeCompare_eq)
next
  assume h: "20 \<le> length (sumHMAC E (m2 k) (appendData [] es)) \<and>
    mac = take 20 (sumHMAC E (m2 k) (appendData [] es)) \<and>
    decrypt E (c k) es = Inr ds \<and>
    parseKey E ds = (np, pk, True) \<and>
    4 \<le> length np \<and>
    extractWord np = (np', keyID, True) \<and>
    appendAll E (theirPublicValue a) (ourPublicValue a) pk keyID = Some vd \<and>
    verify E pk (sumHMAC E (m1 k) vd) (drop 4 np) = (rest, False)"
  then show "processEncryptedSig E a es mac k =
        (Failure (ErrorsNew ''bad signature in encrypted signature''),
         a\<lparr>theirKey := Some pk\<rparr>)"
    by (simp add: processEncryptedSig_def Let_def ConstantTimeCompare_eq)
next
  assume "headerLen E \<le> length msg \<and>
    sig_deserialize E (drop (headerLen E) msg) = Inr sm \<and>
    processEncryptedSig E a (sig_encryptedSig sm) (sig_macSig sm) (sigKey a) =
      (Failure (ErrorsNew txt), a')"
  then show "processSig E a msg =
        (Failure (ErrorsNew (''otr: in signature message: '' @ txt)), a')"
    by (simp add: processSig_def chainErrors_def ensureValidMessage_def)
next
  assume "headerLen E \<le> length msg \<and>
    revealSig_deserialize E (drop (headerLen E) msg) = Inr rm \<and>
    decrypt E (revealSig_r rm) (encryptedGx a) = Inr dg \<and>
    sha256Sum E dg = hashedGx a \<and>
    extractGx E dg = Inr gx \<and>
    calcDHSharedSecret E (a\<lparr>theirPublicValue := Some gx\<rparr>) = Some s \<and>
    processEncryptedSig E (calcAKEKeys E (a\<lparr>theirPublicValue := Some gx\<rparr>) s)
        (revealSig_encryptedSig rm) (revealSig_macSig rm)
        (revealKey (calcAKEKeys E (a\<lparr>theirPublicValue := Some gx\<rparr>) s)) =
      (Failure (ErrorsNew txt), a')"
  then show "processRevealSig E a msg =
        (Failure (NewOtrError (''in reveal signature message: '' @ txt)), a')"
    by (simp add: processRevealSig_def chainErrors_def ensureValidMessage_def
        checkDecryptedGx_def ConstantTimeCompare_eq)
qed

theorem auth_failure_errors_name_the_check_witness:
  "processEncryptedSig toyEnv wInitiator [0, 0, 0, 0, 1] (replicate 20 1) toyKeys =
     (Failure (ErrorsNew ''bad signature MAC in encrypted signature''), wInitiator) \<and>
   processEncryptedSig toyEnv wInitiator [0, 0, 0, 0, 2] (replicate 20 0) toyKeys =
     (Failure (ErrorsNew ''bad signature in encrypted signature''),
      wInitiator\<lparr>theirKey := Some ()\<rparr>) \<and>
   processSig toyEnv wInitiator wSigMsgBadSig =
     (Failure (ErrorsNew (''otr: in signature message: '' @ ''bad signature in encrypted signature'')),
      wInitiator\<lparr>theirKey := Some ()\<rparr>)"
proof (intro conjI)
  have h1: "20 \<le> length (sumHMAC toyEnv (m2 toyKeys) (appendData [] [0, 0, 0, 0, 1])) \<and>
    replicate 20 1 \<noteq> take 20 (sumHMAC toyEnv (m2 toyKeys) (appendData [] [0, 0, 0, 0, 1]))"
    by code_simp
  from auth_failure_errors_name_the_check [THEN conjunct1, THEN mp, OF h1]
  show "processEncryptedSig toyEnv wInitiator [0, 0, 0, 0, 1] (replicate 20 1) toyKeys =
     (Failure (ErrorsNew ''bad signature MAC in encrypted signature''), wInitiator)" .
next
  have h2: "20 \<le> length (sumHMAC toyEnv (m2 toyKeys) (appendData [] [0, 0, 0, 0, 2])) \<and>
    replicate 20 0 = take 20 (sumHMAC toyEnv (m2 toyKeys) (appendData [] [0, 0, 0, 0, 2])) \<and>
    decrypt toyEnv (c toyKeys) [0, 0, 0, 0, 2] = Inr [0, 0, 0, 0, 2] \<and>
    parseKey toyEnv [0, 0, 0, 0, 2] = ([0, 0, 0, 0, 2], (), True) \<and>
    4 \<le> length [0, 0, 0, 0, 2 :: byte] \<and>
    extractWord [0, 0, 0, 0, 2] = ([2], 0, True) \<and>
    appendAll toyEnv (theirPublicValue wInitiator) (ourPublicValue wInitiator) () 0 =
      Some [0, 0, 0, 1, 5, 0, 0, 0, 1, 8, 0, 0, 0, 0] \<and>
    verify toyEnv () (sumHMAC toyEnv (m1 toyKeys) [0, 0, 0, 1, 5, 0, 0, 0, 1, 8, 0, 0, 0, 0])
        (drop 4 [0, 0, 0, 0, 2]) = ([], False)"
    by code_simp
  from auth_failure_errors_name_the_check [THEN conjunct2, THEN conjunct1, THEN mp, OF h2]
  show "processEncryptedSig toyEnv wInitiator [0, 0, 0, 0, 2] (replicate 20 0) toyKeys =
     (Failure (ErrorsNew ''bad signature in encrypted signature''),
      wInitiator\<lparr>theirKey := Some ()\<rparr>)" .
next
  let ?sm = "\<lparr>sig_messageHeader = [], sig_encryptedSig = [0, 0, 0, 0, 2],
              sig_macSig = replicate 20 0\<rparr>"
  have h3: "headerLen toyEnv \<le> length wSigMsgBadSig \<and>
    sig_deserialize toyEnv (drop (headerLen toyEnv) wSigMsgBadSig) = Inr ?sm \<and>
    processEncryptedSig toyEnv wInitiator (sig_encryptedSig ?sm) (sig_macSig ?sm)
        (sigKey wInitiator) =
      (Failure (ErrorsNew ''bad signature in encrypted signature''),
       wInitiator\<lparr>theirKey := Some ()\<rparr>)"
    by code_simp
  from auth_failure_errors_name_the_check
         [THEN conjunct2, THEN conjunct2, THEN conjunct1, THEN mp, OF h3]
  show "processSig toyEnv wInitiator wSigMsgBadSig =
     (Failure (ErrorsNew (''otr: in signature message: '' @ ''bad signature in encrypted signature'')),
      wInitiator\<lparr>theirKey := Some ()\<rparr>)" .
qed

subsection \<open>C6: short reads from the random source\<close>

text \<open>
  C6. \<open>dhKeyMessage\<close> asks the random source for 40 bytes, \<open>dhCommitMessage\<close> for 40
  bytes and then for the 16 bytes of \<open>r\<close>. When the source holds fewer, the result is
  \<open>errShortRandomRead\<close> and no message. When a message is returned, the exponent is
  the value of the first 40 bytes of the source and \<open>r\<close> is the bytes that follow:
  nothing is padded.
\<close>

theorem short_random_read_fails:
  "(length (randSrc a) < 40 \<longrightarrow> fst (dhKeyMessage E a) = Failure ErrShortRandomRead) \<and>
   (length (randSrc a) < 40 + length (r a) \<longrightarrow>
      fst (dhCommitMessage E a) = Failure ErrShortRandomRead) \<and>
   (length (r a) = 16 \<and> length (randSrc a) < 56 \<longrightarrow>
      fst (dhCommitMessage E a) = Failure ErrShortRandomRead) \<and>
   (dhKeyMessage E a = (Value out, a') \<longrightarrow>
      40 \<le> length (randSrc a) \<and>
      secretExponent a' = Some (bytesToInt (take 40 (randSrc a))) \<and>
      randSrc a' = drop 40 (randSrc a)) \<and>
   (dhCommitMessage E a = (Value out, a') \<longrightarrow>
      40 + length (r a) \<le> length (randSrc a) \<and>
      secretExponent a' = Some (bytesToInt (take 40 (randSrc a))) \<and>
      r a' = take (length (r a)) (drop 40 (randSrc a)) \<and>
      randSrc a' = drop (40 + length (r a)) (randSrc a))"
proof (intro conjI impI)
  assume "length (randSrc a) < 40"
  then show "fst (dhKeyMessage E a) = Failure ErrShortRandomRead"
    by (simp add: dhKeyMessage_def randMPI_def readFull_def)
next
  assume "length (randSrc a) < 40 + length (r a)"
  then show "fst (dhCommitMessage E a) = Failure ErrShortRandomRead"
    by (cases "40 \<le> length (randSrc a)")
      (auto simp: dhCommitMessage_def randMPI_def readFull_def setSecretExponent_def Let_def)
next
  assume "length (r a) = 16 \<and> length (randSrc a) < 56"
  then show "fst (dhCommitMessage E a) = Failure ErrShortRandomRead"
    by (cases "40 \<le> length (randSrc a)")
      (auto simp: dhCommitMessage_def randMPI_def readFull_def setSecretExponent_def Let_def)
next
  assume run: "dhKeyMessage E a = (Value out, a')"
  then show "40 \<le> length (randSrc a)"
    by (auto simp: dhKeyMessage_def randMPI_def readFull_def setSecretExponent_def Let_def
        split: if_splits)
  from run show "secretExponent a' = Some (bytesToInt (take 40 (randSrc a)))"
    by (auto simp: dhKeyMessage_def randMPI_def readFull_def setSecretExponent_def Let_def
        split: if_splits)
  from run show "randSrc a' = drop 40 (randSrc a)"
    by (auto simp: dhKeyMessage_def randMPI_def readFull_def setSecretExponent_def Let_def
        split: if_splits)
next
  assume run: "dhCommitMessage E a = (Value out, a')"
  then show "40 + length (r a) \<le> length (randSrc a)"
    by (auto simp: dhCommitMessage_def randMPI_def readFull_def setSecretExponent_def Let_def
        split: if_splits)
  from run show "secretExponent a' = Some (bytesToInt (take 40 (randSrc a)))"
    by (auto simp: dhCommitMessage_def randMPI_def readFull_def setSecretExponent_def Let_def
        split: if_splits)
  from run show "r a' = take (length (r a)) (drop 40 (randSrc a))"
    by (auto simp: dhCommitMessage_def randMPI_def readFull_def setSecretExponent_def Let_def
        split: if_splits)
  from run show "randSrc a' = drop (40 + length (r a)) (randSrc a)"
    by (auto simp: dhCommitMessage_def randMPI_def readFull_def setSecretExponent_def Let_def
        add.commute split: if_splits)
qed

theorem short_random_read_fails_witness:
  "fst (dhKeyMessage toyEnv (toyAKE\<lparr>randSrc := replicate 39 7\<rparr>)) = Failure ErrShortRandomRead \<and>
   fst (dhCommitMessage toyEnv (toyAKE\<lparr>randSrc := replicate 55 7\<rparr>)) =
     Failure ErrShortRandomRead \<and>
   secretExponent (toyAKE\<lparr>secretExponent := Some 3, ourPublicValue := Some 8,
       r := replicate 16 7, encryptedGx := [0, 0, 0, 1, 8]\<rparr>) =
     Some (bytesToInt (take 40 (randSrc (toyAKE\<lparr>randSrc := replicate 39 0 @ [3] @ replicate 16 7\<rparr>))))"
proof (intro conjI)
  have h1: "length (randSrc (toyAKE\<lparr>randSrc := replicate 39 7\<rparr>)) < 40"
    by (simp add: toyAKE_def)
  from short_random_read_fails [THEN conjunct1, THEN mp, OF h1]
  show "fst (dhKeyMessage toyEnv (toyAKE\<lparr>randSrc := replicate 39 7\<rparr>)) =
      Failure ErrShortRandomRead" .
next
  have h2: "length (r (toyAKE\<lparr>randSrc := replicate 55 7\<rparr>)) = 16 \<and>
    length (randSrc (toyAKE\<lparr>randSrc := replicate 55 7\<rparr>)) < 56"
    by (simp add: toyAKE_def)
  from short_random_read_fails [THEN conjunct2, THEN conjunct2, THEN conjunct1, THEN mp, OF h2]
  show "fst (dhCommitMessage toyEnv (toyAKE\<lparr>randSrc := replicate 55 7\<rparr>)) =
      Failure ErrShortRandomRead" .
next
  have run: "dhCommitMessage toyEnv (toyAKE\<lparr>randSrc := replicate 39 0 @ [3] @ replicate 16 7\<rparr>) =
      (Value (dhCommit_serialize toyEnv
                \<lparr>dhCommit_messageHeader = [0, 2, 0], dhCommit_gx = Some 8,
                 dhCommit_encryptedGx = [0, 0, 0, 1, 8], dhCommit_hashedGx = replicate 32 0\<rparr>),
       toyAKE\<lparr>secretExponent := Some 3, ourPublicValue := Some 8,
         r := replicate 16 7, encryptedGx := [0, 0, 0, 1, 8]\<rparr>)"
    by code_simp
  from short_random_read_fails
         [THEN conjunct2, THEN conjunct2, THEN conjunct2, THEN conjunct2, THEN mp, OF run]
  show "secretExponent (toyAKE\<lparr>secretExponent := Some 3, ourPublicValue := Some 8,
       r := replicate 16 7, encryptedGx := [0, 0, 0, 1, 8]\<rparr>) =
     Some (bytesToInt (take 40 (randSrc (toyAKE\<lparr>randSrc := replicate 39 0 @ [3] @ replicate 16 7\<rparr>))))"
    by simp
qed

subsection \<open>C7: short messages and trailing bytes\<close>

text \<open>
  C7 as stated fails for a payload whose signature does not verify: the payload is key
  id 0, the signature byte 2 and the trailing byte 9; \<open>verify\<close> leaves the byte 9
  over and reports failure, and \<open>processEncryptedSig\<close> returns the bad-signature
  error, not \<open>errCorruptEncryptedSignature\<close>.
\<close>

theorem trailing_bytes_bad_signature_counterexample:
  "take 20 (sumHMAC toyEnv (m2 toyKeys) (appendData [] [0, 0, 0, 0, 2, 9])) = replicate 20 0 \<and>
   decrypt toyEnv (c toyKeys) [0, 0, 0, 0, 2, 9] = Inr [0, 0, 0, 0, 2, 9] \<and>
   parseKey toyEnv [0, 0, 0, 0, 2, 9] = ([0, 0, 0, 0, 2, 9], (), True) \<and>
   extractWord [0, 0, 0, 0, 2, 9] = ([2, 9], 0, True) \<and>
   verify toyEnv () (sumHMAC toyEnv (m1 toyKeys) [0, 0, 0, 1, 5, 0, 0, 0, 1, 8, 0, 0, 0, 0])
       (drop 4 [0, 0, 0, 0, 2, 9]) = ([9], False) \<and>
   [9 :: byte] \<noteq> [] \<and>
   processEncryptedSig toyEnv (wResponder\<lparr>theirPublicValue := Some 5\<rparr>)
       [0, 0, 0, 0, 2, 9] (replicate 20 0) toyKeys =
     (Failure (ErrorsNew ''bad signature in encrypted signature''),
      wResponder\<lparr>theirPublicValue := Some 5, theirKey := Some ()\<rparr>) \<and>
   fst (processEncryptedSig toyEnv (wResponder\<lparr>theirPublicValue := Some 5\<rparr>)
          [0, 0, 0, 0, 2, 9] (replicate 20 0) toyKeys) \<noteq>
     Failure ErrCorruptEncryptedSignature"
  by code_simp

text \<open>
  C7, amended. A message shorter than the header is refused by \<open>ensureValidMessage\<close>
  with \<open>errInvalidOTRMessage\<close> in each of the four processing functions, whatever the
  \<open>deserialize\<close> methods are, and the context is unchanged. In \<open>processEncryptedSig\<close>,
  once the MAC matches, the payload decrypts and the key and the key id parse, a
  payload with bytes left over after the signature is rejected: with
  \<open>errCorruptEncryptedSignature\<close> when the signature verifies, and with the
  bad-signature error when it does not, since the signature is verified before the
  bytes left over are looked at.
\<close>

theorem short_message_and_trailing_bytes_rejected:
  "(length msg < headerLen E \<longrightarrow>
      processDHCommit E a msg = (Failure ErrInvalidOTRMessage, a) \<and>
      processDHKey E a msg = (Failure ErrInvalidOTRMessage, a) \<and>
      processRevealSig E a msg = (Failure ErrInvalidOTRMessage, a) \<and>
      processSig E a msg = (Failure ErrInvalidOTRMessage, a)) \<and>
   (20 \<le> length (sumHMAC E (m2 k) (appendData [] es)) \<and>
    mac = take 20 (sumHMAC E (m2 k) (appendData [] es)) \<and>
    decrypt E (c k) es = Inr ds \<and>
    parseKey E ds = (np, pk, True) \<and>
    4 \<le> length np \<and>
    extractWord np = (np', keyID, True) \<and>
    appendAll E (theirPublicValue a) (ourPublicValue a) pk keyID = Some vd \<and>
    verify E pk (sumHMAC E (m1 k) vd) (drop 4 np) = (rest, True) \<and>
    rest \<noteq> [] \<longrightarrow>
      processEncryptedSig E a es mac k =
        (Failure ErrCorruptEncryptedSignature, a\<lparr>theirKey := Some pk\<rparr>)) \<and>
   (20 \<le> length (sumHMAC E (m2 k) (appendData [] es)) \<and>
    mac = take 20 (sumHMAC E (m2 k) (appendData [] es)) \<and>
    decrypt E (c k) es = Inr ds \<and>
    parseKey E ds = (np, pk, True) \<and>
    4 \<le> length np \<and>
    extractWord np = (np', keyID, True) \<and>
    appendAll E (theirPublicValue a) (ourPublicValue a) pk keyID = Some vd \<and>
    verify E pk (sumHMAC E (m1 k) vd) (drop 4 np) = (rest, False) \<and>
    rest \<noteq> [] \<longrightarrow>
      processEncryptedSig E a es mac k =
        (Failure (ErrorsNew ''bad signature in encrypted signature''),
         a\<lparr>theirKey := Some pk\<rparr>))"
proof (intro conjI impI)
  assume short: "length msg < headerLen E"
  show "processDHCommit E a msg = (Failure ErrInvalidOTRMessage, a)"
    using short by (simp add: processDHCommit_def chainErrors_def ensureValidMessage_def)
  show "processDHKey E a msg = (Failure ErrInvalidOTRMessage, a)"
    using short by (simp add: processDHKey_def chainErrors_def ensureValidMessage_def)
  show "processRevealSig E a msg = (Failure ErrInvalidOTRMessage, a)"
    using short by (simp add: processRevealSig_def chainErrors_def ensureValidMessage_def)
  show "processSig E a msg = (Failure ErrInvalidOTRMessage, a)"
    using short by (simp add: processSig_def chainErrors_def ensureValidMessage_def)
next
  assume "20 \<le> length (sumHMAC E (m2 k) (appendData [] es)) \<and>
    mac = take 20 (sumHMAC E (m2 k) (appendData [] es)) \<and>
    decrypt E (c k) es = Inr ds \<and>
    parseKey E ds = (np, pk, True) \<and>
    4 \<le> length np \<and>
    extractWord np = (np', keyID, True) \<and>
    appendAll E (theirPublicValue a) (ourPublicValue a) pk keyID = Some vd \<and>
    verify E pk (sumHMAC E (m1 k) vd) (drop 4 np) = (rest, True) \<and>
    rest \<noteq> []"
  then show "processEncryptedSig E a es mac k =
        (Failure ErrCorruptEncryptedSignature, a\<lparr>theirKey := Some pk\<rparr>)"
    by (simp add: processEncryptedSig_def Let_def ConstantTimeCompare_eq)
next
  assume "20 \<le> length (sumHMAC E (m2 k) (appendData [] es)) \<and>
    mac = take 20 (sumHMAC E (m2 k) (appendData [] es)) \<and>
    decrypt E (c k) es = Inr ds \<and>
    parseKey E ds = (np, pk, True) \<and>
    4 \<le> length np \<and>
    extractWord np = (np', keyID, True) \<and>
    appendAll E (theirPublicValue a) (ourPublicValue a) pk keyID = Some vd \<and>
    verify E pk (sumHMAC E (m1 k) vd) (drop 4 np) = (rest, False) \<and>
    rest \<noteq> []"
  then show "processEncryptedSig E a es mac k =
        (Failure (ErrorsNew ''bad signature in encrypted signature''),
         a\<lparr>theirKey := Some pk\<rparr>)"
    by (simp add: processEncryptedSig_def Let_def ConstantTimeCompare_eq)
qed

theorem short_message_and_trailing_bytes_rejected_witness:
  "processDHCommit toyEnv toyAKE [0, 2] = (Failure ErrInvalidOTRMessage, toyAKE) \<and>
   processDHKey toyEnv toyAKE [0, 2] = (Failure ErrInvalidOTRMessage, toyAKE) \<and>
   processRevealSig toyEnv toyAKE [0, 2] = (Failure ErrInvalidOTRMessage, toyAKE) \<and>
   processSig toyEnv toyAKE [0, 2] = (Failure ErrInvalidOTRMessage, toyAKE) \<and>
   processEncryptedSig toyEnv (wResponder\<lparr>theirPublicValue := Some 5\<rparr>)
       [0, 0, 0, 0, 1, 9] (replicate 20 0) toyKeys =
     (Failure ErrCorruptEncryptedSignature,
      wResponder\<lparr>theirPublicValue := Some 5, theirKey := Some ()\<rparr>) \<and>
   processEncryptedSig toyEnv (wResponder\<lparr>theirPublicValue := Some 5\<rparr>)
       [0, 0, 0, 0, 2, 9] (replicate 20 0) toyKeys =
     (Failure (ErrorsNew ''bad signature in encrypted signature''),
      wResponder\<lparr>theirPublicValue := Some 5, theirKey := Some ()\<rparr>)"
proof -
  have short: "length [0, 2 :: byte] < headerLen toyEnv"
    by (simp add: toyEnv_def)
  have h: "20 \<le> length (sumHMAC toyEnv (m2 toyKeys) (appendData [] [0, 0, 0, 0, 1, 9])) \<and>
    replicate 20 0 = take 20 (sumHMAC toyEnv (m2 toyKeys) (appendData [] [0, 0, 0, 0, 1, 9])) \<and>
    decrypt toyEnv (c toyKeys) [0, 0, 0, 0, 1, 9] = Inr [0, 0, 0, 0, 1, 9] \<and>
    parseKey toyEnv [0, 0, 0, 0, 1, 9] = ([0, 0, 0, 0, 1, 9], (), True) \<and>
    4 \<le> length [0, 0, 0, 0, 1, 9 :: byte] \<and>
    extractWord [0, 0, 0, 0, 1, 9] = ([1, 9], 0, True) \<and>
    appendAll toyEnv (theirPublicValue (wResponder\<lparr>theirPublicValue := Some 5\<rparr>))
        (ourPublicValue (wResponder\<lparr>theirPublicValue := Some 5\<rparr>)) () 0 =
      Some [0, 0, 0, 1, 5, 0, 0, 0, 1, 8, 0, 0, 0, 0] \<and>
    verify toyEnv () (sumHMAC toyEnv (m1 toyKeys) [0, 0, 0, 1, 5, 0, 0, 0, 1, 8, 0, 0, 0, 0])
        (drop 4 [0, 0, 0, 0, 1, 9]) = ([9], True) \<and>
    [9 :: byte] \<noteq> []"
    by code_simp
  have g: "20 \<le> length (sumHMAC toyEnv (m2 toyKeys) (appendData [] [0, 0, 0, 0, 2, 9])) \<and>
    replicate 20 0 = take 20 (sumHMAC toyEnv (m2 toyKeys) (appendData [] [0, 0, 0, 0, 2, 9])) \<and>
    decrypt toyEnv (c toyKeys) [0, 0, 0, 0, 2, 9] = Inr [0, 0, 0, 0, 2, 9] \<and>
    parseKey toyEnv [0, 0, 0, 0, 2, 9] = ([0, 0, 0, 0, 2, 9], (), True) \<and>
    4 \<le> length [0, 0, 0, 0, 2, 9 :: byte] \<and>
    extractWord [0, 0, 0, 0, 2, 9] = ([2, 9], 0, True) \<and>
    appendAll toyEnv (theirPublicValue (wResponder\<lparr>theirPublicValue := Some 5\<rparr>))
        (ourPublicValue (wResponder\<lparr>theirPublicValue := Some 5\<rparr>)) () 0 =
      Some [0, 0, 0, 1, 5, 0, 0, 0, 1, 8, 0, 0, 0, 0] \<and>
    verify toyEnv () (sumHMAC toyEnv (m1 toyKeys) [0, 0, 0, 1, 5, 0, 0, 0, 1, 8, 0, 0, 0, 0])
        (drop 4 [0, 0, 0, 0, 2, 9]) = ([9], False) \<and>
    [9 :: byte] \<noteq> []"
    by code_simp
  from short_message_and_trailing_bytes_rejected [THEN conjunct1, THEN mp, OF short]
    short_message_and_trailing_bytes_rejected [THEN conjunct2, THEN conjunct1, THEN mp, OF h]
    short_message_and_trailing_bytes_rejected [THEN conjunct2, THEN conjunct2, THEN mp, OF g]
  show ?thesis by simp
qed

subsection \<open>C8: the secret exponent and our public value go together\<close>

lemma akeInv_iff:
  "akeInv E a \<longleftrightarrow>
     (secretExponent a = None \<and> ourPublicValue a = None) \<or>
     (\<exists>x. secretExponent a = Some x \<and> ourPublicValue a = Some (g1 ^ nat x mod dhPrime E))"
  by (auto simp: akeInv_def split: option.splits)

lemma akeInv_setSecretExponent: "akeInv E (setSecretExponent E a val)"
  by (simp add: akeInv_iff setSecretExponent_def modExp_def)

lemma akeInv_calcAKEKeys: "akeInv E (calcAKEKeys E a s) = akeInv E a"
  by (simp add: akeInv_iff calcAKEKeys_def split: prod.splits)

lemma akeInv_calcXb: "calcXb E a k mb = (res, a') \<Longrightarrow> akeInv E a' = akeInv E a"
  by (auto simp: calcXb_def Let_def akeInv_iff split: option.splits prod.splits sum.splits if_splits)

lemma akeInv_generateEncryptedSignature:
  "generateEncryptedSignature E a k = (res, a') \<Longrightarrow> akeInv E a' = akeInv E a"
  by (auto simp: generateEncryptedSignature_def Let_def
      split: option.splits prod.splits ret.splits dest: akeInv_calcXb)

lemma akeInv_processEncryptedSig:
  "processEncryptedSig E a es mac k = (res, a') \<Longrightarrow> akeInv E a' = akeInv E a"
  by (auto dest!: processEncryptedSig_state simp: akeInv_iff)

lemma akeInv_dhKeyMessage: "dhKeyMessage E a = (res, a') \<Longrightarrow> akeInv E a \<Longrightarrow> akeInv E a'"
  by (auto simp: dhKeyMessage_def randMPI_def readFull_def Let_def akeInv_iff
      setSecretExponent_def modExp_def split: if_splits)

lemma akeInv_dhCommitMessage:
  "dhCommitMessage E a = (res, a') \<Longrightarrow> akeInv E a \<Longrightarrow> akeInv E a'"
  by (auto simp: dhCommitMessage_def randMPI_def readFull_def Let_def akeInv_iff
      setSecretExponent_def modExp_def split: if_splits)

lemma akeInv_revealSigMessage:
  "revealSigMessage E a = (res, a') \<Longrightarrow> akeInv E a' = akeInv E a"
  by (auto simp: revealSigMessage_def Let_def akeInv_calcAKEKeys
      split: option.splits prod.splits ret.splits dest!: akeInv_generateEncryptedSignature)

lemma akeInv_sigMessage: "sigMessage E a = (res, a') \<Longrightarrow> akeInv E a' = akeInv E a"
  by (auto simp: sigMessage_def Let_def akeInv_calcAKEKeys
      split: option.splits prod.splits ret.splits dest!: akeInv_generateEncryptedSignature)

lemma akeInv_processDHCommit:
  "processDHCommit E a msg = (res, a') \<Longrightarrow> akeInv E a' = akeInv E a"
  by (auto simp: processDHCommit_def akeInv_iff split: sum.splits)

lemma akeInv_processDHKey: "processDHKey E a msg = (res, a') \<Longrightarrow> akeInv E a' = akeInv E a"
  by (auto simp: processDHKey_def akeInv_iff split: sum.splits option.splits)

lemma akeInv_processRevealSig:
  "processRevealSig E a msg = (res, a') \<Longrightarrow> akeInv E a' = akeInv E a"
proof -
  have upd: "akeInv E (b\<lparr>theirPublicValue := v\<rparr>) = akeInv E b" for b v
    by (simp add: akeInv_iff)
  assume "processRevealSig E a msg = (res, a')"
  then show ?thesis
    by (auto simp: processRevealSig_def Let_def akeInv_calcAKEKeys upd
        split: sum.splits option.splits prod.splits ret.splits
        dest!: akeInv_processEncryptedSig)
qed

lemma akeInv_processSig: "processSig E a msg = (res, a') \<Longrightarrow> akeInv E a' = akeInv E a"
  by (auto simp: processSig_def Let_def
      split: sum.splits prod.splits ret.splits dest!: akeInv_processEncryptedSig)

text \<open>
  C8. In every context reached from a fresh one by the methods of \<open>ake.go\<close>,
  whatever each call returns, \<open>secretExponent\<close> and \<open>ourPublicValue\<close> are both nil,
  or both set with \<open>ourPublicValue = g1 ^ secretExponent mod p\<close>.
\<close>

theorem reachable_exponent_and_public_value:
  assumes "reachable E a"
  shows "akeInv E a \<and>
         ((secretExponent a = None \<and> ourPublicValue a = None) \<or>
          (\<exists>x. secretExponent a = Some x \<and>
                ourPublicValue a = Some (g1 ^ nat x mod dhPrime E)))"
proof -
  from assms have inv: "akeInv E a"
  proof (induction rule: reachable.induct)
    case (r_init a)
    then show ?case by (simp add: akeInv_iff)
  next
    case (r_calcAKEKeys a s)
    then show ?case by (simp add: akeInv_calcAKEKeys)
  next
    case (r_setSecretExponent a val)
    show ?case by (rule akeInv_setSecretExponent)
  next
    case (r_calcXb a k mb res a')
    then show ?case by (simp add: akeInv_calcXb)
  next
    case (r_generateEncryptedSignature a k res a')
    then show ?case by (simp add: akeInv_generateEncryptedSignature)
  next
    case (r_dhCommitMessage a res a')
    then show ?case by (blast intro: akeInv_dhCommitMessage)
  next
    case (r_dhKeyMessage a res a')
    then show ?case by (blast intro: akeInv_dhKeyMessage)
  next
    case (r_revealSigMessage a res a')
    then show ?case by (simp add: akeInv_revealSigMessage)
  next
    case (r_sigMessage a res a')
    then show ?case by (simp add: akeInv_sigMessage)
  next
    case (r_processDHCommit a msg ures a')
    then show ?case by (simp add: akeInv_processDHCommit)
  next
    case (r_processDHKey a msg bres a')
    then show ?case by (simp add: akeInv_processDHKey)
  next
    case (r_processRevealSig a msg ures a')
    then show ?case by (simp add: akeInv_processRevealSig)
  next
    case (r_processSig a msg ures a')
    then show ?case by (simp add: akeInv_processSig)
  next
    case (r_processEncryptedSig a es mac k ures a')
    then show ?case by (simp add: akeInv_processEncryptedSig)
  qed
  then have "(secretExponent a = None \<and> ourPublicValue a = None) \<or>
          (\<exists>x. secretExponent a = Some x \<and>
                ourPublicValue a = Some (g1 ^ nat x mod dhPrime E))"
    by (auto simp: akeInv_iff split: option.splits)
  with inv show ?thesis by simp
qed

theorem reachable_exponent_and_public_value_witness:
  "akeInv toyEnv (toyAKE\<lparr>secretExponent := Some 3, ourPublicValue := Some 8,
       theirPublicValue := Some 5\<rparr>) \<and>
   ourPublicValue (toyAKE\<lparr>secretExponent := Some 3, ourPublicValue := Some 8,
       theirPublicValue := Some 5\<rparr>) = Some (g1 ^ nat 3 mod dhPrime toyEnv)"
proof -
  have init: "reachable toyEnv (toyAKE\<lparr>randSrc := replicate 39 0 @ [3] @ replicate 16 7\<rparr>)"
    by (rule r_init) (simp_all add: toyAKE_def)
  have run1: "dhCommitMessage toyEnv (toyAKE\<lparr>randSrc := replicate 39 0 @ [3] @ replicate 16 7\<rparr>) =
      (Value (dhCommit_serialize toyEnv
                \<lparr>dhCommit_messageHeader = [0, 2, 0], dhCommit_gx = Some 8,
                 dhCommit_encryptedGx = [0, 0, 0, 1, 8], dhCommit_hashedGx = replicate 32 0\<rparr>),
       toyAKE\<lparr>secretExponent := Some 3, ourPublicValue := Some 8,
         r := replicate 16 7, encryptedGx := [0, 0, 0, 1, 8]\<rparr>)"
    by code_simp
  have run2: "processDHKey toyEnv
        (toyAKE\<lparr>secretExponent := Some 3, ourPublicValue := Some 8,
           r := replicate 16 7, encryptedGx := [0, 0, 0, 1, 8]\<rparr>) wKeyMsg =
      (Value False,
       toyAKE\<lparr>secretExponent := Some 3, ourPublicValue := Some 8, theirPublicValue := Some 5,
         r := replicate 16 7, encryptedGx := [0, 0, 0, 1, 8]\<rparr>)"
    by code_simp
  have "reachable toyEnv
      (toyAKE\<lparr>secretExponent := Some 3, ourPublicValue := Some 8, theirPublicValue := Some 5,
         r := replicate 16 7, encryptedGx := [0, 0, 0, 1, 8]\<rparr>)"
    by (rule r_processDHKey [OF r_dhCommitMessage [OF init run1] run2])
  from reachable_exponent_and_public_value [OF this]
  show ?thesis
    by (simp add: akeInv_iff toyAKE_def)
qed

subsection \<open>C10: what sendDHCommit leaves behind\<close>

text \<open>
  C10. When \<open>sendDHCommit\<close> succeeds, both helpers have succeeded, and the conversation
  is the one they left (\<open>conv2\<close>) with the AKE state set to
  \<open>authStateAwaitingDHKey\<close> and the key-management context replaced by one that has
  the \<open>oldMACKeys\<close> of \<open>conv2\<close> and the zero value in every other field; nothing else
  changes. When the helpers leave the key-management context alone, the
  \<open>oldMACKeys\<close> are those from before the call.
\<close>

theorem sendDHCommit_success_frame:
  assumes "sendDHCommit dcm wmh z conv = (Value out, conv')"
  shows "\<exists>toSend conv1 conv2.
           dcm conv = (Value toSend, conv1) \<and>
           wmh msgTypeDHCommit toSend conv1 = (Value out, conv2) \<and>
           state (ake conv') = authStateAwaitingDHKey \<and>
           akeFields (ake conv') = akeFields (ake conv2) \<and>
           oldMACKeys (keys conv') = oldMACKeys (keys conv2) \<and>
           otherKeyFields (keys conv') = z \<and>
           keys conv' = \<lparr>oldMACKeys = oldMACKeys (keys conv2), otherKeyFields = z\<rparr> \<and>
           convFields conv' = convFields conv2 \<and>
           (keys conv2 = keys conv \<longrightarrow> oldMACKeys (keys conv') = oldMACKeys (keys conv))"
  using assms
  by (auto simp: sendDHCommit_def split: prod.splits ret.splits)

theorem sendDHCommit_success_frame_witness:
  "sendDHCommit w_dhCommitMessage w_wrapMessageHeader 0 wConversation =
     (Value [0, 2, 2, 1, 2, 3],
      \<lparr>ake = \<lparr>state = authStateAwaitingDHKey, akeFields = ()\<rparr>,
       keys = \<lparr>oldMACKeys = [[9, 9]], otherKeyFields = 0\<rparr>,
       convFields = ()\<rparr>) \<and>
   (\<exists>toSend conv1 conv2.
      w_dhCommitMessage wConversation = (Value toSend, conv1) \<and>
      w_wrapMessageHeader msgTypeDHCommit toSend conv1 = (Value [0, 2, 2, 1, 2, 3], conv2) \<and>
      oldMACKeys (keys conv2) = [[9, 9]])"
proof -
  have run: "sendDHCommit w_dhCommitMessage w_wrapMessageHeader 0 wConversation =
     (Value [0, 2, 2, 1, 2, 3],
      \<lparr>ake = \<lparr>state = authStateAwaitingDHKey, akeFields = ()\<rparr>,
       keys = \<lparr>oldMACKeys = [[9, 9]], otherKeyFields = 0\<rparr>,
       convFields = ()\<rparr>)"
    by (simp add: sendDHCommit_def w_dhCommitMessage_def w_wrapMessageHeader_def
        wConversation_def msgTypeDHCommit_def)
  from sendDHCommit_success_frame [OF run] run
  show ?thesis by auto
qed

end
